theory Spec2Isabelle
  imports Main "HOL-Library.Word" "HOL-Library.Signed_Division"
begin

unbundle bit_operations_syntax

section \<open>The ns16550 UART driver (xen/drivers/char/ns16550.c)\<close>

text \<open>
  The driver is embedded as it is built for x86: \<open>HAS_IOPORTS\<close> and \<open>HAS_PCI\<close>
  are defined, \<open>HAS_DEVICE_TREE\<close> and \<open>CONFIG_ARM\<close> are not, and \<open>char\<close> is
  signed. A C \<open>int\<close> is an \<open>int\<close> here, wrapped to 32 bits by \<open>s32\<close> wherever a
  wider value is stored into it or its arithmetic can overflow.
\<close>

type_synonym u8 = "8 word"
type_synonym u16 = "16 word"
type_synonym u32 = "32 word"
type_synonym u64 = "64 word"

definition s32 :: "int \<Rightarrow> int" where
  "s32 x = sint (word_of_int x :: u32)"

subsection \<open>Constants of headers that are not under src/\<close>

text \<open>
  Modelled from the spec: the register indices and bit masks of xen/8250-uart.h, the
  configuration-space offsets of xen/pci_regs.h and \<open>EIO\<close> of xen/errno.h. The headers
  are not under src/; the values are those of the 16550 register map and of PCI
  configuration space that the spec refers to (interrupt-enable, line-status,
  modem-control and modem-status registers, the loopback signature 0x9, the BAR and
  command registers).
\<close>

definition UART_RBR :: int where "UART_RBR = 0"
definition UART_THR :: int where "UART_THR = 0"
definition UART_IER :: int where "UART_IER = 1"
definition UART_IIR :: int where "UART_IIR = 2"
definition UART_FCR :: int where "UART_FCR = 2"
definition UART_LCR :: int where "UART_LCR = 3"
definition UART_MCR :: int where "UART_MCR = 4"
definition UART_LSR :: int where "UART_LSR = 5"
definition UART_MSR :: int where "UART_MSR = 6"
definition UART_USR :: int where "UART_USR = 31"
definition UART_DLL :: int where "UART_DLL = 0"
definition UART_DLM :: int where "UART_DLM = 1"

definition UART_IER_ERDAI :: u8 where "UART_IER_ERDAI = 0x01"
definition UART_IER_ETHREI :: u8 where "UART_IER_ETHREI = 0x02"
definition UART_IIR_NOINT :: u8 where "UART_IIR_NOINT = 0x01"
definition UART_IIR_BSY :: u8 where "UART_IIR_BSY = 0x07"
definition UART_FCR_ENABLE :: u8 where "UART_FCR_ENABLE = 0x01"
definition UART_FCR_CLRX :: u8 where "UART_FCR_CLRX = 0x02"
definition UART_FCR_CLTX :: u8 where "UART_FCR_CLTX = 0x04"
definition UART_FCR_TRG14 :: u8 where "UART_FCR_TRG14 = 0xc0"
definition UART_LCR_DLAB :: u8 where "UART_LCR_DLAB = 0x80"
definition UART_MCR_DTR :: u8 where "UART_MCR_DTR = 0x01"
definition UART_MCR_RTS :: u8 where "UART_MCR_RTS = 0x02"
definition UART_MCR_OUT2 :: u8 where "UART_MCR_OUT2 = 0x08"
definition UART_MCR_LOOP :: u8 where "UART_MCR_LOOP = 0x10"
definition UART_LSR_DR :: u8 where "UART_LSR_DR = 0x01"
definition UART_LSR_THRE :: u8 where "UART_LSR_THRE = 0x20"

definition UART_PARITY_NONE :: int where "UART_PARITY_NONE = 0x00"
definition UART_PARITY_ODD :: int where "UART_PARITY_ODD = 0x08"
definition UART_PARITY_EVEN :: int where "UART_PARITY_EVEN = 0x18"
definition UART_PARITY_MARK :: int where "UART_PARITY_MARK = 0x28"
definition UART_PARITY_SPACE :: int where "UART_PARITY_SPACE = 0x38"

definition UART_CLOCK_HZ :: int where "UART_CLOCK_HZ = 1843200"
definition BAUD_AUTO :: int where "BAUD_AUTO = - 1"
definition EIO :: int where "EIO = 5"

definition PCI_COMMAND :: nat where "PCI_COMMAND = 0x04"
definition PCI_CLASS_DEVICE :: nat where "PCI_CLASS_DEVICE = 0x0a"
definition PCI_HEADER_TYPE :: nat where "PCI_HEADER_TYPE = 0x0e"
definition PCI_BASE_ADDRESS_0 :: nat where "PCI_BASE_ADDRESS_0 = 0x10"
definition PCI_IO_BASE :: nat where "PCI_IO_BASE = 0x1c"
definition PCI_INTERRUPT_LINE :: nat where "PCI_INTERRUPT_LINE = 0x3c"
definition PCI_INTERRUPT_PIN :: nat where "PCI_INTERRUPT_PIN = 0x3d"
definition PCI_BASE_ADDRESS_SPACE_IO :: u32 where "PCI_BASE_ADDRESS_SPACE_IO = 0x01"
definition PCI_COMMAND_IO :: u16 where "PCI_COMMAND_IO = 0x1"

lemmas uart_regs =
  UART_RBR_def UART_THR_def UART_IER_def UART_IIR_def UART_FCR_def UART_LCR_def
  UART_MCR_def UART_LSR_def UART_MSR_def UART_USR_def UART_DLL_def UART_DLM_def

lemmas uart_bits =
  UART_IER_ERDAI_def UART_IER_ETHREI_def UART_IIR_NOINT_def UART_IIR_BSY_def
  UART_FCR_ENABLE_def UART_FCR_CLRX_def UART_FCR_CLTX_def UART_FCR_TRG14_def
  UART_LCR_DLAB_def UART_MCR_DTR_def UART_MCR_RTS_def UART_MCR_OUT2_def
  UART_MCR_LOOP_def UART_LSR_DR_def UART_LSR_THRE_def

lemmas pci_regs =
  PCI_COMMAND_def PCI_CLASS_DEVICE_def PCI_HEADER_TYPE_def PCI_BASE_ADDRESS_0_def
  PCI_IO_BASE_def PCI_INTERRUPT_LINE_def PCI_INTERRUPT_PIN_def
  PCI_BASE_ADDRESS_SPACE_IO_def PCI_COMMAND_IO_def

subsection \<open>The port descriptor: struct ns16550\<close>

text \<open>
  \<open>remapped_io_base\<close> is a pointer: 0 is \<open>NULL\<close>. The two \<open>struct timer\<close> fields
  keep what the driver can observe of a timer: whether it is armed. \<open>irqaction\<close> is
  only handed to \<open>setup_irq\<close> and is left out.
\<close>

record ns16550 =
  baud :: int
  clock_hz :: int
  data_bits :: int
  parity :: int
  stop_bits :: int
  fifo_size :: int
  irq :: int
  io_base :: u64
  io_size :: u32
  reg_shift :: int
  reg_width :: int
  remapped_io_base :: u64
  timer :: bool
  resume_timer :: bool
  timeout_ms :: u32
  intr_works :: bool
  dw_usr_bsy :: bool
  pb_bdf :: "nat \<times> nat \<times> nat"
  ps_bdf :: "nat \<times> nat \<times> nat"
  pb_bdf_enable :: bool
  ps_bdf_enable :: bool
  bar :: u32
  cr :: u16
  bar_idx :: u8

subsection \<open>The machine around the driver\<close>

text \<open>
  PCI configuration space: every function has 256 byte registers, and for each a mask
  of its writable bits (a read-only bit keeps its value when written). Sizing a BAR
  needs nothing more: the bits below the size of the region are read-only. A function
  that is not there reads all-ones and ignores writes.
\<close>

record pci_fn =
  cfg :: "nat \<Rightarrow> u8"
  wmask :: "nat \<Rightarrow> u8"

type_synonym pci_space = "nat \<times> nat \<times> nat \<Rightarrow> pci_fn"

definition absent_fn :: pci_fn where
  "absent_fn = \<lparr>cfg = (\<lambda>_. 0xff), wmask = (\<lambda>_. 0)\<rparr>"

text \<open>
  Everything the driver does to the outside is an event of the trace, in program
  order. The port and memory reads consume the bus responses \<open>bus_in\<close> in order: the
  k-th read of a run returns \<open>bus_in k\<close>, whatever the device's reasons, so that a
  statement for every \<open>bus_in\<close> is a statement for every device.
\<close>

datatype event =
    Inb u64
  | Outb u8 u64
  | Readb u64
  | Readl u64
  | Writeb u8 u64
  | Writel u32 u64
  | Serial_rx_interrupt
  | Serial_tx_interrupt
  | Serial_async_transmit
  | Set_timer u32
  | Set_resume_timer
  | Stop_timer
  | Setup_irq int
  | Pci_hide_device nat nat nat
  | Ioports_deny_access u64 u64
  | Set_fixmap_nocache u64
  | Serial_register_uart nat

record world =
  bus_in :: "nat \<Rightarrow> u32"
  nreads :: nat
  trace :: "event list"
  pci :: pci_space
  delayed_resume_tries :: int
  deny_rc :: int

definition emit :: "event \<Rightarrow> world \<Rightarrow> world" where
  "emit e w = w\<lparr>trace := trace w @ [e]\<rparr>"

definition bus_read :: "event \<Rightarrow> world \<Rightarrow> u32 \<times> world" where
  "bus_read e w = (bus_in w (nreads w), emit e (w\<lparr>nreads := Suc (nreads w)\<rparr>))"

definition inb :: "u64 \<Rightarrow> world \<Rightarrow> u8 \<times> world" where
  "inb port w = (case bus_read (Inb port) w of (v, w') \<Rightarrow> (ucast v, w'))"

definition readb :: "u64 \<Rightarrow> world \<Rightarrow> u8 \<times> world" where
  "readb addr w = (case bus_read (Readb addr) w of (v, w') \<Rightarrow> (ucast v, w'))"

definition readl :: "u64 \<Rightarrow> world \<Rightarrow> u32 \<times> world" where
  "readl addr w = bus_read (Readl addr) w"

definition outb :: "u8 \<Rightarrow> u64 \<Rightarrow> world \<Rightarrow> world" where
  "outb c port w = emit (Outb c port) w"

definition writeb :: "u8 \<Rightarrow> u64 \<Rightarrow> world \<Rightarrow> world" where
  "writeb c addr w = emit (Writeb c addr) w"

definition writel :: "u32 \<Rightarrow> u64 \<Rightarrow> world \<Rightarrow> world" where
  "writel v addr w = emit (Writel v addr) w"

subsection \<open>Register access\<close>

definition reg_addr :: "ns16550 \<Rightarrow> int \<Rightarrow> u64" where
  "reg_addr uart reg = remapped_io_base uart + word_of_int (push_bit (nat (reg_shift uart)) reg)"

text \<open>\<open>ns_read_reg\<close> returns a \<open>char\<close>: the low byte of what the bus returned.\<close>

definition ns_read_reg :: "ns16550 \<Rightarrow> int \<Rightarrow> world \<Rightarrow> u8 \<times> world" where
  "ns_read_reg uart reg w =
     (if remapped_io_base uart = 0 then inb (io_base uart + word_of_int reg) w
      else if reg_width uart = 1 then readb (reg_addr uart reg) w
      else if reg_width uart = 4 then
        (case readl (reg_addr uart reg) w of (v, w') \<Rightarrow> (ucast v, w'))
      else (0xff, w))"

text \<open>\<open>writel(c, addr)\<close> takes the \<open>char\<close> as a 32-bit value: it is sign-extended.\<close>

definition ns_write_reg :: "ns16550 \<Rightarrow> int \<Rightarrow> u8 \<Rightarrow> world \<Rightarrow> world" where
  "ns_write_reg uart reg c w =
     (if remapped_io_base uart = 0 then outb c (io_base uart + word_of_int reg) w
      else if reg_width uart = 1 then writeb c (reg_addr uart reg) w
      else if reg_width uart = 4 then writel (scast c) (reg_addr uart reg) w
      else w)"

definition ns16550_ioport_invalid :: "ns16550 \<Rightarrow> world \<Rightarrow> bool \<times> world" where
  "ns16550_ioport_invalid uart w =
     (case ns_read_reg uart UART_IER w of (v, w') \<Rightarrow> (v = 0xff, w'))"

subsection \<open>Runtime operations\<close>

definition serial_rx_interrupt :: "world \<Rightarrow> world" where
  "serial_rx_interrupt w = emit Serial_rx_interrupt w"

definition serial_tx_interrupt :: "world \<Rightarrow> world" where
  "serial_tx_interrupt w = emit Serial_tx_interrupt w"

definition set_timer :: "ns16550 \<Rightarrow> world \<Rightarrow> ns16550 \<times> world" where
  "set_timer uart w = (uart\<lparr>timer := True\<rparr>, emit (Set_timer (timeout_ms uart)) w)"

definition set_resume_timer :: "ns16550 \<Rightarrow> world \<Rightarrow> ns16550 \<times> world" where
  "set_resume_timer uart w = (uart\<lparr>resume_timer := True\<rparr>, emit Set_resume_timer w)"

definition stop_timer :: "ns16550 \<Rightarrow> world \<Rightarrow> ns16550 \<times> world" where
  "stop_timer uart w = (uart\<lparr>timer := False\<rparr>, emit Stop_timer w)"

definition ns16550_tx_ready :: "ns16550 \<Rightarrow> world \<Rightarrow> int \<times> world" where
  "ns16550_tx_ready uart w =
     (case ns16550_ioport_invalid uart w of (invalid, w1) \<Rightarrow>
        if invalid then (- EIO, w1)
        else (case ns_read_reg uart UART_LSR w1 of (lsr, w2) \<Rightarrow>
          (if lsr AND UART_LSR_THRE \<noteq> 0 then fifo_size uart else 0, w2)))"

definition ns16550_putc :: "ns16550 \<Rightarrow> u8 \<Rightarrow> world \<Rightarrow> world" where
  "ns16550_putc uart c w = ns_write_reg uart UART_THR c w"

text \<open>\<open>ns16550_getc\<close> returns 0 and leaves \<open>*pc\<close> alone, or returns 1 with the byte.\<close>

definition ns16550_getc :: "ns16550 \<Rightarrow> world \<Rightarrow> (int \<times> u8 option) \<times> world" where
  "ns16550_getc uart w =
     (case ns16550_ioport_invalid uart w of (invalid, w1) \<Rightarrow>
        if invalid then ((0, None), w1)
        else (case ns_read_reg uart UART_LSR w1 of (lsr, w2) \<Rightarrow>
          if lsr AND UART_LSR_DR = 0 then ((0, None), w2)
          else (case ns_read_reg uart UART_RBR w2 of (c, w3) \<Rightarrow> ((1, Some c), w3))))"

subsection \<open>PCI configuration space access\<close>

text \<open>
  \<open>pci_conf_read8/16/32\<close> and \<open>pci_conf_write16/32\<close> (segment 0 throughout) on the
  configuration space above: little-endian, byte by byte.
\<close>

definition pci_conf_read8 :: "pci_space \<Rightarrow> nat \<times> nat \<times> nat \<Rightarrow> nat \<Rightarrow> u8" where
  "pci_conf_read8 t bdf reg = cfg (t bdf) reg"

definition pci_conf_read16 :: "pci_space \<Rightarrow> nat \<times> nat \<times> nat \<Rightarrow> nat \<Rightarrow> u16" where
  "pci_conf_read16 t bdf reg = word_cat (cfg (t bdf) (reg + 1)) (cfg (t bdf) reg)"

definition pci_conf_read32 :: "pci_space \<Rightarrow> nat \<times> nat \<times> nat \<Rightarrow> nat \<Rightarrow> u32" where
  "pci_conf_read32 t bdf reg =
     word_cat (pci_conf_read16 t bdf (reg + 2)) (pci_conf_read16 t bdf reg)"

definition cfg_write8 :: "pci_fn \<Rightarrow> nat \<Rightarrow> u8 \<Rightarrow> pci_fn" where
  "cfg_write8 fn reg v =
     fn\<lparr>cfg := (cfg fn)(reg := (v AND wmask fn reg) OR (cfg fn reg AND NOT (wmask fn reg)))\<rparr>"

definition cfg_write16 :: "pci_fn \<Rightarrow> nat \<Rightarrow> u16 \<Rightarrow> pci_fn" where
  "cfg_write16 fn reg v = cfg_write8 (cfg_write8 fn reg (ucast v)) (reg + 1) (ucast (drop_bit 8 v))"

definition cfg_write32 :: "pci_fn \<Rightarrow> nat \<Rightarrow> u32 \<Rightarrow> pci_fn" where
  "cfg_write32 fn reg v =
     cfg_write16 (cfg_write16 fn reg (ucast v)) (reg + 2) (ucast (drop_bit 16 v))"

definition pci_conf_write16 ::
  "pci_space \<Rightarrow> nat \<times> nat \<times> nat \<Rightarrow> nat \<Rightarrow> u16 \<Rightarrow> pci_space" where
  "pci_conf_write16 t bdf reg v = t(bdf := cfg_write16 (t bdf) reg v)"

definition pci_conf_write32 ::
  "pci_space \<Rightarrow> nat \<times> nat \<times> nat \<Rightarrow> nat \<Rightarrow> u32 \<Rightarrow> pci_space" where
  "pci_conf_write32 t bdf reg v = t(bdf := cfg_write32 (t bdf) reg v)"

subsection \<open>Setup\<close>

definition pci_serial_early_init :: "ns16550 \<Rightarrow> world \<Rightarrow> world" where
  "pci_serial_early_init uart w =
     (if \<not> ps_bdf_enable uart \<or> io_base uart \<ge> 0x10000 then w
      else
        (let t1 = (if pb_bdf_enable uart
                   then pci_conf_write16 (pci w) (pb_bdf uart) PCI_IO_BASE
                          (ucast ((io_base uart AND 0xF000) OR
                                  drop_bit 8 (io_base uart AND 0xF000)))
                   else pci w);
             t2 = pci_conf_write32 t1 (ps_bdf uart) PCI_BASE_ADDRESS_0
                    (ucast (io_base uart OR ucast PCI_BASE_ADDRESS_SPACE_IO));
             t3 = pci_conf_write16 t2 (ps_bdf uart) PCI_COMMAND PCI_COMMAND_IO
         in w\<lparr>pci := t3\<rparr>))"

text \<open>
  The branch of \<open>ns16550_setup_preirq\<close> on \<open>uart->baud != BAUD_AUTO\<close>. Both
  divisions trap on a zero divisor: the result is \<open>None\<close> then. In the first the
  operands are \<open>int\<close> (C truncates), in the second \<open>unsigned int\<close>; the \<open>char\<close> read
  from the divisor latch is sign-extended.
\<close>

definition setup_divisor :: "ns16550 \<Rightarrow> world \<Rightarrow> (ns16550 \<times> world) option" where
  "setup_divisor uart w =
     (if baud uart \<noteq> BAUD_AUTO then
        (if s32 (baud uart * 16) = 0 then None
         else
           (let divisor = (word_of_int (clock_hz uart sdiv s32 (baud uart * 16)) :: u32);
                w1 = ns_write_reg uart UART_DLL (ucast divisor) w;
                w2 = ns_write_reg uart UART_DLM (ucast (drop_bit 8 divisor)) w1
            in Some (uart, w2)))
      else
        (case ns_read_reg uart UART_DLL w of (dll, w1) \<Rightarrow>
         case ns_read_reg uart UART_DLM w1 of (dlm, w2) \<Rightarrow>
           (let divisor = (scast dll :: u32) OR word_of_int (sint dlm * 256)
            in if push_bit 4 divisor = 0 then None
               else Some (uart\<lparr>baud := sint ((word_of_int (clock_hz uart) :: u32)
                                              div push_bit 4 divisor)\<rparr>, w2))))"

definition ns16550_setup_preirq :: "ns16550 \<Rightarrow> world \<Rightarrow> (ns16550 \<times> world) option" where
  "ns16550_setup_preirq uart0 w0 =
     (let uart = uart0\<lparr>intr_works := False\<rparr>;
          w1 = pci_serial_early_init uart w0;
          lcr = (word_of_int ((data_bits uart - 5) OR push_bit 2 (stop_bits uart - 1)
                              OR parity uart) :: u8);
          w2 = ns_write_reg uart UART_IER 0 w1;
          w3 = (if dw_usr_bsy uart then
                  (case ns_read_reg uart UART_IIR w2 of (iir, w') \<Rightarrow>
                     if iir AND UART_IIR_BSY = UART_IIR_BSY
                     then snd (ns_read_reg uart UART_USR w') else w')
                else w2);
          w4 = ns_write_reg uart UART_LCR (lcr OR UART_LCR_DLAB) w3
      in case setup_divisor uart w4 of
           None \<Rightarrow> None
         | Some (uart', w5) \<Rightarrow>
             (let w6 = ns_write_reg uart' UART_LCR lcr w5;
                  w7 = ns_write_reg uart' UART_MCR (UART_MCR_DTR OR UART_MCR_RTS) w6;
                  w8 = ns_write_reg uart' UART_FCR
                         (UART_FCR_ENABLE OR UART_FCR_CLRX OR UART_FCR_CLTX OR UART_FCR_TRG14) w7
              in Some (uart', w8)))"

text \<open>
  \<open>fix_virt\<close> is \<open>fix_to_virt(FIX_COM_BEGIN + slot)\<close>, an address of the fixmap
  (not under src/); \<open>~PAGE_MASK\<close> is 0xfff.
\<close>

definition ns16550_init_preirq :: "u64 \<Rightarrow> ns16550 \<Rightarrow> world \<Rightarrow> (ns16550 \<times> world) option" where
  "ns16550_init_preirq fix_virt uart0 w0 =
     (let (uart, w) =
            (if io_base uart0 \<ge> 0x10000
             then (uart0\<lparr>remapped_io_base := fix_virt + (io_base uart0 AND 0xfff)\<rparr>,
                   emit (Set_fixmap_nocache (io_base uart0)) w0)
             else (uart0, w0))
      in case ns16550_setup_preirq uart w of
           None \<Rightarrow> None
         | Some (uart1, w1) \<Rightarrow>
             (case ns_read_reg uart1 UART_IIR w1 of (iir, w2) \<Rightarrow>
                if iir AND 0xc0 = 0xc0 then
                  (case ns_read_reg uart1 UART_FCR w2 of (fcr, w3) \<Rightarrow>
                     if fcr AND UART_FCR_TRG14 = UART_FCR_TRG14
                     then Some (uart1\<lparr>fifo_size := 16\<rparr>, w3) else Some (uart1, w3))
                else Some (uart1, w2)))"

definition ns16550_setup_postirq :: "ns16550 \<Rightarrow> world \<Rightarrow> ns16550 \<times> world" where
  "ns16550_setup_postirq uart w =
     (let w1 = (if irq uart > 0 then
                  ns_write_reg uart UART_IER (UART_IER_ERDAI OR UART_IER_ETHREI)
                    (ns_write_reg uart UART_MCR
                       (UART_MCR_OUT2 OR UART_MCR_DTR OR UART_MCR_RTS) w)
                else w)
      in if irq uart \<ge> 0 then set_timer uart w1 else (uart, w1))"

text \<open>
  \<open>ns16550_init_postirq\<close>: the quotient is computed on \<open>int\<close> (32 bits, truncating),
  then compared as \<open>unsigned int\<close> by \<open>max_t\<close>. The division traps when \<open>baud\<close> is 0
  and when it overflows; \<open>init_timer\<close> leaves both timers inactive.
\<close>

definition ns16550_init_postirq :: "ns16550 \<Rightarrow> world \<Rightarrow> (ns16550 \<times> world) option" where
  "ns16550_init_postirq uart w =
     (if irq uart < 0 then Some (uart, w)
      else
        (let w1 = emit Serial_async_transmit w;
             uart1 = uart\<lparr>timer := False, resume_timer := False\<rparr>;
             bits = s32 (s32 (data_bits uart1 + stop_bits uart1)
                         + (if parity uart1 \<noteq> 0 then 1 else 0));
             num = s32 (s32 (bits * fifo_size uart1) * 1000)
         in if baud uart1 = 0 \<or> (num = - (2 ^ 31) \<and> baud uart1 = - 1) then None
            else
              (let uart2 = uart1\<lparr>timeout_ms := max 1 (word_of_int (num sdiv baud uart1))\<rparr>;
                   w2 = (if irq uart2 > 0 then emit (Setup_irq (irq uart2)) w1 else w1);
                   (uart3, w3) = ns16550_setup_postirq uart2 w2;
                   w4 = (if bar uart3 \<noteq> 0 \<or> ps_bdf_enable uart3
                         then (case ps_bdf uart3 of (b, d, f) \<Rightarrow> emit (Pci_hide_device b d f) w3)
                         else w3)
               in Some (uart3, w4))))"

subsection \<open>The interrupt handler and the poll timer\<close>

text \<open>
  Both loops run for as long as the device says so: they are partial functions, and
  \<open>None\<close> is a loop that never ends.
\<close>

partial_function (option) ns16550_interrupt_loop :: "ns16550 \<Rightarrow> world \<Rightarrow> world option" where
  "ns16550_interrupt_loop uart w =
     (case ns_read_reg uart UART_IIR w of (iir, w1) \<Rightarrow>
        if iir AND UART_IIR_NOINT = 0 then
          (case ns_read_reg uart UART_LSR w1 of (lsr, w2) \<Rightarrow>
             ns16550_interrupt_loop uart
               ((if lsr AND UART_LSR_DR \<noteq> 0 then serial_rx_interrupt else id)
                  ((if lsr AND UART_LSR_THRE \<noteq> 0 then serial_tx_interrupt else id) w2)))
        else Some w1)"

definition ns16550_interrupt :: "ns16550 \<Rightarrow> world \<Rightarrow> (ns16550 \<times> world) option" where
  "ns16550_interrupt uart w =
     (case ns16550_interrupt_loop (uart\<lparr>intr_works := True\<rparr>) w of
        None \<Rightarrow> None
      | Some w' \<Rightarrow> Some (uart\<lparr>intr_works := True\<rparr>, w'))"

text \<open>
  The \<open>while\<close> loop of \<open>__ns16550_poll\<close>: the flag returned is True when the loop was
  left by \<open>goto out\<close>.
\<close>

partial_function (option) ns16550_poll_rx :: "ns16550 \<Rightarrow> world \<Rightarrow> (bool \<times> world) option" where
  "ns16550_poll_rx uart w =
     (case ns_read_reg uart UART_LSR w of (lsr, w1) \<Rightarrow>
        if lsr AND UART_LSR_DR \<noteq> 0 then
          (case ns16550_ioport_invalid uart w1 of (invalid, w2) \<Rightarrow>
             if invalid then Some (True, w2)
             else ns16550_poll_rx uart (serial_rx_interrupt w2))
        else Some (False, w1))"

text \<open>\<open>__ns16550_poll\<close>, which \<open>ns16550_poll\<close> runs on the port of the timer.\<close>

definition do_ns16550_poll :: "ns16550 \<Rightarrow> world \<Rightarrow> (ns16550 \<times> world) option" where
  "do_ns16550_poll uart w =
     (if intr_works uart then Some (uart, w)
      else
        (case ns16550_poll_rx uart w of
           None \<Rightarrow> None
         | Some (out, w1) \<Rightarrow>
             (let w2 = (if out then w1
                        else (case ns_read_reg uart UART_LSR w1 of (lsr, w') \<Rightarrow>
                                if lsr AND UART_LSR_THRE \<noteq> 0 then serial_tx_interrupt w' else w'))
              in Some (set_timer uart w2))))"

subsection \<open>Suspend and resume\<close>

definition ns16550_suspend :: "ns16550 \<Rightarrow> world \<Rightarrow> ns16550 \<times> world" where
  "ns16550_suspend uart w =
     (case stop_timer uart w of (uart1, w1) \<Rightarrow>
        if bar uart1 \<noteq> 0
        then (uart1\<lparr>cr := pci_conf_read16 (pci w1) (ps_bdf uart1) PCI_COMMAND\<rparr>, w1)
        else (uart1, w1))"

text \<open>\<open>_ns16550_resume\<close>.\<close>

definition do_ns16550_resume :: "ns16550 \<Rightarrow> world \<Rightarrow> (ns16550 \<times> world) option" where
  "do_ns16550_resume uart w =
     (let w1 = (if bar uart \<noteq> 0 then
                  w\<lparr>pci := pci_conf_write16
                             (pci_conf_write32 (pci w) (ps_bdf uart)
                                (PCI_BASE_ADDRESS_0 + unat (bar_idx uart) * 4) (bar uart))
                             (ps_bdf uart) PCI_COMMAND (cr uart)\<rparr>
                else w)
      in case ns16550_setup_preirq uart w1 of
           None \<Rightarrow> None
         | Some (uart2, w2) \<Rightarrow> Some (ns16550_setup_postirq uart2 w2))"

text \<open>
  \<open>delayed_resume_tries--\<close> is evaluated only when the port is invalid; the test is
  on the value before the decrement.
\<close>

definition ns16550_delayed_resume :: "ns16550 \<Rightarrow> world \<Rightarrow> (ns16550 \<times> world) option" where
  "ns16550_delayed_resume uart w =
     (case ns16550_ioport_invalid uart w of (invalid, w1) \<Rightarrow>
        if invalid then
          (let tries = delayed_resume_tries w1;
               w2 = w1\<lparr>delayed_resume_tries := s32 (tries - 1)\<rparr>
           in if tries \<noteq> 0 then Some (set_resume_timer uart w2)
              else do_ns16550_resume uart w2)
        else do_ns16550_resume uart w1)"

text \<open>
  \<open>RESUME_RETRIES\<close> is a macro of xen/8250-uart.h, which is not under src/: it is a
  parameter. (\<open>RESUME_DELAY\<close>, the other one, is the delay of \<open>Set_resume_timer\<close>.)
\<close>

definition ns16550_resume :: "int \<Rightarrow> ns16550 \<Rightarrow> world \<Rightarrow> (ns16550 \<times> world) option" where
  "ns16550_resume RESUME_RETRIES uart w =
     (case ns16550_ioport_invalid uart w of (invalid, w1) \<Rightarrow>
        if invalid
        then Some (set_resume_timer uart (w1\<lparr>delayed_resume_tries := RESUME_RETRIES\<rparr>))
        else do_ns16550_resume uart w1)"

text \<open>
  The timer subsystem runs the callback of an armed timer when it expires, and the
  timer is inactive by then. \<open>resume_timer_expires_n n\<close> lets the resume timer expire
  n times in a row.
\<close>

definition resume_timer_expires :: "ns16550 \<Rightarrow> world \<Rightarrow> (ns16550 \<times> world) option" where
  "resume_timer_expires uart w =
     (if resume_timer uart then ns16550_delayed_resume (uart\<lparr>resume_timer := False\<rparr>) w
      else Some (uart, w))"

fun resume_timer_expires_n ::
  "nat \<Rightarrow> (ns16550 \<times> world) option \<Rightarrow> (ns16550 \<times> world) option" where
  "resume_timer_expires_n 0 s = s"
| "resume_timer_expires_n (Suc n) s =
     (case s of None \<Rightarrow> None
      | Some (uart, w) \<Rightarrow> resume_timer_expires_n n (resume_timer_expires uart w))"

subsection \<open>The rest of the callback table\<close>

text \<open>\<open>BUG()\<close> stops the machine: \<open>None\<close>. \<open>deny_rc\<close> is what \<open>ioports_deny_access\<close> returns.\<close>

definition ns16550_endboot :: "ns16550 \<Rightarrow> world \<Rightarrow> world option" where
  "ns16550_endboot uart w =
     (if remapped_io_base uart \<noteq> 0 then Some w
      else
        (let w1 = emit (Ioports_deny_access (io_base uart) (io_base uart + 7)) w
         in if deny_rc w1 \<noteq> 0 then None else Some w1))"

definition ns16550_irq :: "ns16550 \<Rightarrow> int" where
  "ns16550_irq uart = (if irq uart > 0 then irq uart else - 1)"

text \<open>
  \<open>ns16550_driver\<close>, the table of callbacks, as what a call through it does to the
  descriptor and the machine (the value a query returns is dropped here).
\<close>

datatype driver_op =
    Init_preirq u64
  | Init_postirq
  | Endboot
  | Suspend
  | Resume
  | Tx_ready
  | Putc u8
  | Getc
  | Irq

fun ns16550_driver ::
  "int \<Rightarrow> driver_op \<Rightarrow> ns16550 \<Rightarrow> world \<Rightarrow> (ns16550 \<times> world) option" where
  "ns16550_driver R (Init_preirq fix_virt) uart w = ns16550_init_preirq fix_virt uart w"
| "ns16550_driver R Init_postirq uart w = ns16550_init_postirq uart w"
| "ns16550_driver R Endboot uart w = map_option (Pair uart) (ns16550_endboot uart w)"
| "ns16550_driver R Suspend uart w = Some (ns16550_suspend uart w)"
| "ns16550_driver R Resume uart w = ns16550_resume R uart w"
| "ns16550_driver R Tx_ready uart w = Some (uart, snd (ns16550_tx_ready uart w))"
| "ns16550_driver R (Putc c) uart w = Some (uart, ns16550_putc uart c w)"
| "ns16550_driver R Getc uart w = Some (uart, snd (ns16550_getc uart w))"
| "ns16550_driver R Irq uart w = Some (uart, w)"

subsection \<open>The bus locator: pci\_uart\_config\<close>

text \<open>
  The three nested \<open>for\<close> loops, innermost first. Each returns True with the
  descriptor filled in when the \<open>return 0\<close> inside the loops was reached, and False
  when the loop ran out. \<open>skip_amt\<close> is used as a truth value only.
\<close>

function pci_scan_fn ::
  "ns16550 \<Rightarrow> nat \<Rightarrow> nat \<Rightarrow> nat \<Rightarrow> nat \<Rightarrow> pci_space \<Rightarrow> bool \<times> ns16550 \<times> pci_space" where
  "pci_scan_fn uart idx b d f t =
     (if f < 8 then
        (let nextf = (if f \<noteq> 0 \<or> pci_conf_read16 t (b, d, f) PCI_HEADER_TYPE AND 0x80 \<noteq> 0
                      then f + 1 else 8);
             cls = pci_conf_read16 t (b, d, f) PCI_CLASS_DEVICE
         in if cls = 0x0700 \<or> cls = 0x0702 \<or> cls = 0x0780 then
              (let barv = pci_conf_read32 t (b, d, f) (PCI_BASE_ADDRESS_0 + idx * 4)
               in if barv AND PCI_BASE_ADDRESS_SPACE_IO = 0
                  then pci_scan_fn uart idx b d nextf t
                  else
                    (let t1 = pci_conf_write32 t (b, d, f) PCI_BASE_ADDRESS_0 (NOT 0);
                         len = pci_conf_read32 t1 (b, d, f) PCI_BASE_ADDRESS_0;
                         t2 = pci_conf_write32 t1 (b, d, f)
                                (PCI_BASE_ADDRESS_0 + idx * 4) barv
                     in if len AND 0xffff \<noteq> 0xfff9
                        then pci_scan_fn uart idx b d nextf t2
                        else
                          (True,
                           uart\<lparr>ps_bdf := (b, d, f),
                                bar := barv,
                                bar_idx := of_nat idx,
                                io_base := ucast (barv AND NOT PCI_BASE_ADDRESS_SPACE_IO),
                                irq := (if pci_conf_read8 t2 (b, d, f) PCI_INTERRUPT_PIN \<noteq> 0
                                        then uint (pci_conf_read8 t2 (b, d, f) PCI_INTERRUPT_LINE)
                                        else 0)\<rparr>,
                           t2)))
            else if cls = 0xffff
            then pci_scan_fn uart idx b d (if f = 0 then 8 else nextf) t
            else pci_scan_fn uart idx b d nextf t)
      else (False, uart, t))"
  by pat_completeness auto
termination
  by (relation "measure (\<lambda>(uart, idx, b, d, f, t). 8 - f)") auto

function pci_scan_dev ::
  "ns16550 \<Rightarrow> nat \<Rightarrow> nat \<Rightarrow> nat \<Rightarrow> pci_space \<Rightarrow> bool \<times> ns16550 \<times> pci_space" where
  "pci_scan_dev uart idx b d t =
     (if d < 0x20 then
        (case pci_scan_fn uart idx b d 0 t of
           (True, uart', t') \<Rightarrow> (True, uart', t')
         | (False, uart', t') \<Rightarrow> pci_scan_dev uart' idx b (d + 1) t')
      else (False, uart, t))"
  by pat_completeness auto
termination
  by (relation "measure (\<lambda>(uart, idx, b, d, t). 0x20 - d)") auto

function pci_scan_bus ::
  "ns16550 \<Rightarrow> nat \<Rightarrow> nat \<Rightarrow> pci_space \<Rightarrow> bool \<times> ns16550 \<times> pci_space" where
  "pci_scan_bus uart idx b t =
     (if b < 0x100 then
        (case pci_scan_dev uart idx b 0 t of
           (True, uart', t') \<Rightarrow> (True, uart', t')
         | (False, uart', t') \<Rightarrow> pci_scan_bus uart' idx (b + 1) t')
      else (False, uart, t))"
  by pat_completeness auto
termination
  by (relation "measure (\<lambda>(uart, idx, b, t). 0x100 - b)") auto

definition pci_uart_config :: "ns16550 \<Rightarrow> bool \<Rightarrow> nat \<Rightarrow> world \<Rightarrow> int \<times> ns16550 \<times> world" where
  "pci_uart_config uart skip_amt idx w =
     (case pci_scan_bus uart idx (if skip_amt then 1 else 0) (pci w) of
        (True, uart', t') \<Rightarrow> (0, uart', w\<lparr>pci := t'\<rparr>)
      | (False, uart', t') \<Rightarrow>
          if \<not> skip_amt then (- 1, uart', w\<lparr>pci := t'\<rparr>)
          else (0, uart'\<lparr>io_base := 0x3f8, irq := 0, clock_hz := UART_CLOCK_HZ\<rparr>,
                w\<lparr>pci := t'\<rparr>))"

subsection \<open>The identification probe\<close>

definition check_existence :: "ns16550 \<Rightarrow> world \<Rightarrow> bool \<times> world" where
  "check_existence uart w =
     (if io_base uart \<ge> 0x10000 then (True, w)
      else
        (let w0 = pci_serial_early_init uart w in
         case ns_read_reg uart UART_IER w0 of (scratch, w1) \<Rightarrow>
         let w2 = ns_write_reg uart UART_IER 0 w1 in
         case ns_read_reg uart UART_IER w2 of (r2, w3) \<Rightarrow>
         let scratch2 = r2 AND 0x0f;
             w4 = ns_write_reg uart UART_IER 0x0F w3 in
         case ns_read_reg uart UART_IER w4 of (r3, w5) \<Rightarrow>
         let scratch3 = r3 AND 0x0f;
             w6 = ns_write_reg uart UART_IER scratch w5 in
         if scratch2 \<noteq> 0 \<or> scratch3 \<noteq> 0x0F then (False, w6)
         else
           (let w7 = ns_write_reg uart UART_MCR (UART_MCR_LOOP OR 0x0A) w6 in
            case ns_read_reg uart UART_MSR w7 of (r4, w8) \<Rightarrow> (r4 AND 0xF0 = 0x90, w8))))"

subsection \<open>The configuration parser\<close>

definition parse_parity_char :: "char \<Rightarrow> int" where
  "parse_parity_char c =
     (if c = CHR ''n'' then UART_PARITY_NONE
      else if c = CHR ''o'' then UART_PARITY_ODD
      else if c = CHR ''e'' then UART_PARITY_EVEN
      else if c = CHR ''m'' then UART_PARITY_MARK
      else if c = CHR ''s'' then UART_PARITY_SPACE
      else 0)"

text \<open>
  A C string is the list of its characters before the terminating NUL; \<open>chr_at\<close>
  is \<open>*conf\<close>, which reads the NUL at the end.
\<close>

definition chr_at :: "string \<Rightarrow> char" where
  "chr_at conf = (case conf of [] \<Rightarrow> CHR 0x00 | c # _ \<Rightarrow> c)"

definition isdigit :: "char \<Rightarrow> bool" where
  "isdigit c = (48 \<le> (of_char c :: nat) \<and> (of_char c :: nat) \<le> 57)"

definition isxdigit :: "char \<Rightarrow> bool" where
  "isxdigit c = (isdigit c \<or> (97 \<le> (of_char c :: nat) \<and> (of_char c :: nat) \<le> 102)
                 \<or> (65 \<le> (of_char c :: nat) \<and> (of_char c :: nat) \<le> 70))"

definition toupper :: "char \<Rightarrow> char" where
  "toupper c = (if 97 \<le> (of_char c :: nat) \<and> (of_char c :: nat) \<le> 122
                then char_of ((of_char c :: nat) - 32) else c)"

text \<open>
  Modelled from the spec: \<open>simple_strtoul\<close> and \<open>simple_strtol\<close> of the hypervisor's
  library, which are not under src/. The spec's grammar
  \<open><baud|auto>[/<clock>][,DPS[,<location>[,<irq>...]]]\<close> reads a numeric field as the
  longest run of digits of the base from the left (\<open>115200\<close>, \<open>8\<close>, \<open>0x3f8\<close>: with
  base 0 a leading \<open>0x\<close> selects base 16 and a leading \<open>0\<close> base 8), gives 0 when there
  is none, and leaves the position at the first character that is not one; the value
  is an \<open>unsigned long\<close> (64 bits). \<open>simple_strtol\<close> accepts a leading minus sign.
\<close>

fun strtoul_digits :: "nat \<Rightarrow> nat \<Rightarrow> string \<Rightarrow> nat \<times> string" where
  "strtoul_digits base result [] = (result, [])"
| "strtoul_digits base result (c # cp) =
     (let v = (if isdigit c then (of_char c :: nat) - 48
               else (of_char (toupper c) :: nat) - 65 + 10)
      in if isxdigit c \<and> v < base
         then strtoul_digits base ((result * base + v) mod 2 ^ 64) cp
         else (result, c # cp))"

definition simple_strtoul :: "string \<Rightarrow> nat \<Rightarrow> nat \<times> string" where
  "simple_strtoul cp base =
     (if base = 0 then
        (if chr_at cp = CHR ''0'' then
           (if toupper (chr_at (tl cp)) = CHR ''X'' \<and> isxdigit (chr_at (tl (tl cp)))
            then strtoul_digits 16 0 (tl (tl cp))
            else strtoul_digits 8 0 (tl cp))
         else strtoul_digits 10 0 cp)
      else if base = 16 \<and> chr_at cp = CHR ''0'' \<and> toupper (chr_at (tl cp)) = CHR ''X''
      then strtoul_digits 16 0 (tl (tl cp))
      else strtoul_digits base 0 cp)"

definition simple_strtol :: "string \<Rightarrow> nat \<Rightarrow> int \<times> string" where
  "simple_strtol cp base =
     (if chr_at cp = CHR ''-''
      then (case simple_strtoul (tl cp) base of (v, rest) \<Rightarrow> (- int v, rest))
      else (case simple_strtoul cp base of (v, rest) \<Rightarrow> (int v, rest)))"

datatype parse_outcome =
    Registered
  | Not_configured
  | Scan_failed
  | Bad_port_pci
  | Bad_bridge_pci
  | Bad_baud
  | Bad_data_bits
  | Bad_stop_bits
  | Bad_io_base
  | Not_present

text \<open>
  The test \<open>*conf == ',' && *++conf != ','\<close> that opens a field: the comma is
  consumed whether or not the field is there.
\<close>

definition next_field :: "string \<Rightarrow> bool \<times> string" where
  "next_field conf =
     (if chr_at conf = CHR '','' then (chr_at (tl conf) \<noteq> CHR '','', tl conf)
      else (False, conf))"

text \<open>The baud rate and the clock (the first two \<open>if\<close> statements after the empty case).\<close>

definition parse_baud :: "ns16550 \<Rightarrow> string \<Rightarrow> ns16550 \<times> string" where
  "parse_baud uart conf =
     (let (uart1, conf1) =
            (if take 4 conf = ''auto'' then (uart\<lparr>baud := BAUD_AUTO\<rparr>, drop 4 conf)
             else (case simple_strtoul conf 10 of (v, rest) \<Rightarrow>
                     (if s32 (int v) \<noteq> 0 then uart\<lparr>baud := s32 (int v)\<rparr> else uart, rest)))
      in if chr_at conf1 = CHR ''/''
         then (case simple_strtoul (tl conf1) 0 of (v, rest) \<Rightarrow>
                 (uart1\<lparr>clock_hz := s32 (int v * 16)\<rparr>, rest))
         else (uart1, conf1))"

text \<open>
  The DPS field: data bits, the parity character, stop bits. When the string ends
  right after the data bits, \<open>conf + 1\<close> is one past the terminating NUL; the option
  buffers are zero-filled, so that what is read there is the empty string.
\<close>

definition parse_dps :: "ns16550 \<Rightarrow> string \<Rightarrow> ns16550 \<times> string" where
  "parse_dps uart conf =
     (case next_field conf of
        (True, conf1) \<Rightarrow>
          (case simple_strtoul conf1 10 of (dbits, conf2) \<Rightarrow>
           case simple_strtoul (tl conf2) 10 of (sbits, conf3) \<Rightarrow>
             (uart\<lparr>data_bits := s32 (int dbits),
                   parity := parse_parity_char (chr_at conf2),
                   stop_bits := s32 (int sbits)\<rparr>, conf3))
      | (False, conf1) \<Rightarrow> (uart, conf1))"

text \<open>
  The location field: \<open>pci\<close>, \<open>amt\<close> or an address. The flag is False when
  \<open>pci_uart_config\<close> failed and the parser returns; \<open>slot\<close> is \<open>uart - ns16550_com\<close>.
\<close>

definition parse_location ::
  "nat \<Rightarrow> ns16550 \<Rightarrow> string \<Rightarrow> world \<Rightarrow> bool \<times> ns16550 \<times> string \<times> world" where
  "parse_location slot uart conf w =
     (case next_field conf of
        (True, conf1) \<Rightarrow>
          (if take 3 conf1 = ''pci'' then
             (case pci_uart_config uart True slot w of (rc, uart1, w1) \<Rightarrow>
                (rc = 0, uart1, drop 3 conf1, w1))
           else if take 3 conf1 = ''amt'' then
             (case pci_uart_config uart False slot w of (rc, uart1, w1) \<Rightarrow>
                (rc = 0, uart1, drop 3 conf1, w1))
           else (case simple_strtoul conf1 0 of (v, rest) \<Rightarrow>
                   (True, uart\<lparr>io_base := of_nat v\<rparr>, rest, w)))
      | (False, conf1) \<Rightarrow> (True, uart, conf1, w))"

definition parse_irq :: "ns16550 \<Rightarrow> string \<Rightarrow> ns16550 \<times> string" where
  "parse_irq uart conf =
     (case next_field conf of
        (True, conf1) \<Rightarrow>
          (case simple_strtol conf1 10 of (v, rest) \<Rightarrow> (uart\<lparr>irq := s32 v\<rparr>, rest))
      | (False, conf1) \<Rightarrow> (uart, conf1))"

text \<open>
  The two PCI coordinates. \<open>parse_pci\<close> is not under src/: it is a parameter, which
  returns the rest of the string and the bus, device and function, or \<open>None\<close> for
  \<open>NULL\<close>. The result is the \<open>PARSE_ERR\<close> taken, if any.
\<close>

definition parse_bdfs ::
  "(string \<Rightarrow> (string \<times> nat \<times> nat \<times> nat) option) \<Rightarrow> ns16550 \<Rightarrow> string
     \<Rightarrow> parse_outcome option \<times> ns16550" where
  "parse_bdfs parse_pci uart conf =
     (case (case next_field conf of
              (True, conf1) \<Rightarrow>
                (case parse_pci conf1 of
                   None \<Rightarrow> (Some Bad_port_pci, uart, conf1)
                 | Some (rest, bdf) \<Rightarrow>
                     (None, uart\<lparr>ps_bdf := bdf, ps_bdf_enable := True\<rparr>, rest))
            | (False, conf1) \<Rightarrow> (None, uart, conf1)) of
        (Some err, uart1, conf2) \<Rightarrow> (Some err, uart1)
      | (None, uart1, conf2) \<Rightarrow>
          (case next_field conf2 of
             (True, conf3) \<Rightarrow>
               (case parse_pci conf3 of
                  None \<Rightarrow> (Some Bad_bridge_pci, uart1)
                | Some (rest, bdf) \<Rightarrow> (None, uart1\<lparr>pb_bdf := bdf, pb_bdf_enable := True\<rparr>))
           | (False, conf3) \<Rightarrow> (None, uart1)))"

text \<open>From the label \<open>config_parsed\<close>: the sanity checks, the probe, the registration.\<close>

definition config_parsed :: "nat \<Rightarrow> ns16550 \<Rightarrow> world \<Rightarrow> parse_outcome \<times> ns16550 \<times> world" where
  "config_parsed slot uart w =
     (if baud uart \<noteq> BAUD_AUTO \<and> (baud uart < 1200 \<or> baud uart > 115200)
      then (Bad_baud, uart, w)
      else if data_bits uart < 5 \<or> data_bits uart > 8 then (Bad_data_bits, uart, w)
      else if stop_bits uart < 1 \<or> stop_bits uart > 2 then (Bad_stop_bits, uart, w)
      else if io_base uart = 0 then (Bad_io_base, uart, w)
      else (case check_existence uart w of (present, w1) \<Rightarrow>
              if \<not> present then (Not_present, uart, w1)
              else (Registered, uart, emit (Serial_register_uart slot) w1)))"

text \<open>
  The parser down to the label \<open>config_parsed\<close>. The first component is the way the
  parser returned before the label, if it did. \<open>conf\<close> is never \<open>NULL\<close> in this file
  (it is one of the two option buffers), and \<open>NULL\<close> is treated as the empty string is.
\<close>

definition parse_fields ::
  "(string \<Rightarrow> (string \<times> nat \<times> nat \<times> nat) option) \<Rightarrow> nat \<Rightarrow> ns16550 \<Rightarrow> string \<Rightarrow> world
     \<Rightarrow> parse_outcome option \<times> ns16550 \<times> world" where
  "parse_fields parse_pci slot uart conf w =
     (if conf = [] then
        (if baud uart \<noteq> 0 then (None, uart, w) else (Some Not_configured, uart, w))
      else
        (case parse_baud uart conf of (uart1, conf1) \<Rightarrow>
         case parse_dps uart1 conf1 of (uart2, conf2) \<Rightarrow>
         case parse_location slot uart2 conf2 w of
           (False, uart3, conf3, w3) \<Rightarrow> (Some Scan_failed, uart3, w3)
         | (True, uart3, conf3, w3) \<Rightarrow>
             (case parse_irq uart3 conf3 of (uart4, conf4) \<Rightarrow>
              case parse_bdfs parse_pci uart4 conf4 of (err, uart5) \<Rightarrow> (err, uart5, w3))))"

definition ns16550_parse_port_config ::
  "(string \<Rightarrow> (string \<times> nat \<times> nat \<times> nat) option) \<Rightarrow> nat \<Rightarrow> ns16550 \<Rightarrow> string \<Rightarrow> world
     \<Rightarrow> parse_outcome \<times> ns16550 \<times> world" where
  "ns16550_parse_port_config parse_pci slot uart conf w =
     (case parse_fields parse_pci slot uart conf w of
        (Some err, uart', w') \<Rightarrow> (err, uart', w')
      | (None, uart', w') \<Rightarrow> config_parsed slot uart' w')"

text \<open>
  \<open>struct ns16550_defaults\<close> (xen/serial.h) and \<open>ns16550_init\<close>. The slot of
  \<open>ns16550_com\<close> is zero-initialised; \<open>console_has\<close> and the option string are
  parameters. The result is \<open>None\<close> when the index is refused.
\<close>

record ns16550_defaults =
  d_baud :: int
  d_data_bits :: int
  d_parity :: char
  d_stop_bits :: int
  d_irq :: int
  d_io_base :: u64

definition ns16550_com0 :: ns16550 where
  "ns16550_com0 =
     \<lparr>baud = 0, clock_hz = 0, data_bits = 0, parity = 0, stop_bits = 0, fifo_size = 0,
      irq = 0, io_base = 0, io_size = 0, reg_shift = 0, reg_width = 0,
      remapped_io_base = 0, timer = False, resume_timer = False, timeout_ms = 0,
      intr_works = False, dw_usr_bsy = False, pb_bdf = (0, 0, 0), ps_bdf = (0, 0, 0),
      pb_bdf_enable = False, ps_bdf_enable = False, bar = 0, cr = 0, bar_idx = 0\<rparr>"

definition ns16550_init ::
  "(string \<Rightarrow> (string \<times> nat \<times> nat \<times> nat) option) \<Rightarrow> bool \<Rightarrow> string \<Rightarrow> int
     \<Rightarrow> ns16550_defaults \<Rightarrow> world \<Rightarrow> (parse_outcome \<times> ns16550 \<times> world) option" where
  "ns16550_init parse_pci console_has opt_com index defaults w =
     (if index < 0 \<or> index > 1 then None
      else
        Some (ns16550_parse_port_config parse_pci (nat index)
          (ns16550_com0\<lparr>
             baud := (if d_baud defaults \<noteq> 0 then d_baud defaults
                      else if console_has then BAUD_AUTO else 0),
             clock_hz := UART_CLOCK_HZ,
             data_bits := d_data_bits defaults,
             parity := parse_parity_char (d_parity defaults),
             stop_bits := d_stop_bits defaults,
             irq := d_irq defaults,
             io_base := d_io_base defaults,
             io_size := 8,
             reg_width := 1,
             reg_shift := 0,
             fifo_size := 1\<rparr>)
          opt_com w))"

subsection \<open>Notions the statements below use\<close>

text \<open>
  A descriptor reads the bus unless it is memory-mapped with a register width that is
  neither 1 nor 4. \<open>reg_value uart w k\<close> is the byte that the k-th register read from
  now on returns.
\<close>

definition reads_bus :: "ns16550 \<Rightarrow> bool" where
  "reads_bus uart = (remapped_io_base uart = 0 \<or> reg_width uart = 1 \<or> reg_width uart = 4)"

definition reg_value :: "ns16550 \<Rightarrow> world \<Rightarrow> nat \<Rightarrow> u8" where
  "reg_value uart w k = (if reads_bus uart then ucast (bus_in w (nreads w + k)) else 0xff)"

text \<open>The event that a register read of such a descriptor leaves in the trace.\<close>

definition read_event :: "ns16550 \<Rightarrow> int \<Rightarrow> event" where
  "read_event uart reg =
     (if remapped_io_base uart = 0 then Inb (io_base uart + word_of_int reg)
      else if reg_width uart = 1 then Readb (reg_addr uart reg)
      else Readl (reg_addr uart reg))"

text \<open>The event that a register write of such a descriptor leaves in the trace.\<close>

definition write_event :: "ns16550 \<Rightarrow> int \<Rightarrow> u8 \<Rightarrow> event" where
  "write_event uart reg c =
     (if remapped_io_base uart = 0 then Outb c (io_base uart + word_of_int reg)
      else if reg_width uart = 1 then Writeb c (reg_addr uart reg)
      else Writel (scast c) (reg_addr uart reg))"

text \<open>The events a call added to the trace, and how many of them are a given event.\<close>

definition new_events :: "world \<Rightarrow> world \<Rightarrow> event list" where
  "new_events w w' = drop (length (trace w)) (trace w')"

definition count_new :: "event \<Rightarrow> world \<Rightarrow> world \<Rightarrow> nat" where
  "count_new e w w' = count_list (new_events w w') e"

text \<open>Inputs for the closed statements: the platform's defaults for COM1, COM1 as
  \<open>ns16550_init\<close> hands it to the parser (\<open>com1_boot\<close>) and as it runs once set up
  (\<open>com1\<close>), a \<open>parse_pci\<close> that accepts nothing, and a machine with an empty PCI bus and the bus responses \<open>f\<close>: always the same value, or the
  values of a list and then 0xff, as a bus without a device reads.\<close>

definition com1_defaults :: ns16550_defaults where
  "com1_defaults =
     \<lparr>d_baud = 0, d_data_bits = 8, d_parity = CHR ''n'', d_stop_bits = 1, d_irq = 4,
      d_io_base = 0x3f8\<rparr>"

definition com1_boot :: ns16550 where
  "com1_boot =
     ns16550_com0\<lparr>clock_hz := UART_CLOCK_HZ, data_bits := 8, stop_bits := 1, irq := 4,
       io_base := 0x3f8, io_size := 8, reg_width := 1, fifo_size := 1\<rparr>"

definition com1 :: ns16550 where
  "com1 =
     ns16550_com0\<lparr>baud := 115200, clock_hz := UART_CLOCK_HZ, data_bits := 8,
       stop_bits := 1, irq := 4, io_base := 0x3f8, io_size := 8, reg_width := 1,
       fifo_size := 16, timeout_ms := 1\<rparr>"

definition no_parse_pci :: "string \<Rightarrow> (string \<times> nat \<times> nat \<times> nat) option" where
  "no_parse_pci conf = None"

definition always :: "u32 \<Rightarrow> nat \<Rightarrow> u32" where
  "always v k = v"

definition responses :: "u32 list \<Rightarrow> nat \<Rightarrow> u32" where
  "responses vs k = (if k < length vs then vs ! k else 0xff)"

definition machine :: "(nat \<Rightarrow> u32) \<Rightarrow> world" where
  "machine f =
     \<lparr>bus_in = f, nreads = 0, trace = [], pci = (\<lambda>_. absent_fn),
      delayed_resume_tries = 0, deny_rc = 0\<rparr>"

text \<open>
  The machine after a resume found the port invalid j times in a row (j at least 1),
  each time scheduling a retry: j reads of the interrupt-enable register, j retries, and
  the retry counter, set to \<open>RESUME_RETRIES\<close> by the first and decremented by each
  of the others.
\<close>

definition after_retries :: "ns16550 \<Rightarrow> int \<Rightarrow> nat \<Rightarrow> world \<Rightarrow> world" where
  "after_retries uart T j w =
     w\<lparr>nreads := nreads w + j,
       trace := trace w @ concat (replicate j [read_event uart UART_IER, Set_resume_timer]),
       delayed_resume_tries := T - (int j - 1)\<rparr>"

text \<open>
  The bus locator as the spec words it, on the PCI configuration space as it is before
  the scan. A function is accepted when its class code is a serial class, its target BAR
  is I/O space, and the read after filling the primary BAR with all-ones encodes an
  8-byte region. Functions 1 to 7 of a device are walked when the header of function 0
  indicates a multi-function device (and function 0 is there: its class code does not
  read all-ones). The scan selects the first function walked and accepted, in ascending
  (bus, device, function) order from bus 1 when the first bus is skipped, and records it.
\<close>

definition serial_class :: "u16 \<Rightarrow> bool" where
  "serial_class c = (c = 0x0700 \<or> c = 0x0702 \<or> c = 0x0780)"

definition fn_accepted :: "nat \<Rightarrow> pci_space \<Rightarrow> nat \<times> nat \<times> nat \<Rightarrow> bool" where
  "fn_accepted idx t p =
     (serial_class (pci_conf_read16 t p PCI_CLASS_DEVICE)
      \<and> pci_conf_read32 t p (PCI_BASE_ADDRESS_0 + idx * 4) AND PCI_BASE_ADDRESS_SPACE_IO \<noteq> 0
      \<and> pci_conf_read32 (pci_conf_write32 t p PCI_BASE_ADDRESS_0 (NOT 0)) p PCI_BASE_ADDRESS_0
            AND 0xffff = 0xfff9)"

definition multi_function :: "pci_space \<Rightarrow> nat \<Rightarrow> nat \<Rightarrow> bool" where
  "multi_function t b d =
     (pci_conf_read16 t (b, d, 0) PCI_HEADER_TYPE AND 0x80 \<noteq> 0
      \<and> pci_conf_read16 t (b, d, 0) PCI_CLASS_DEVICE \<noteq> 0xffff)"

definition fn_walked :: "pci_space \<Rightarrow> nat \<times> nat \<times> nat \<Rightarrow> bool" where
  "fn_walked t p = (case p of (b, d, f) \<Rightarrow> f = 0 \<or> multi_function t b d)"

definition bus_order :: "nat \<Rightarrow> (nat \<times> nat \<times> nat) list" where
  "bus_order start =
     concat (map (\<lambda>b. concat (map (\<lambda>d. map (\<lambda>f. (b, d, f)) [0..<8]) [0..<0x20]))
               [start..<0x100])"

definition first_match :: "bool \<Rightarrow> nat \<Rightarrow> pci_space \<Rightarrow> (nat \<times> nat \<times> nat) option" where
  "first_match skip_amt idx t =
     find (\<lambda>p. fn_walked t p \<and> fn_accepted idx t p) (bus_order (if skip_amt then 1 else 0))"

definition record_card :: "ns16550 \<Rightarrow> nat \<Rightarrow> pci_space \<Rightarrow> nat \<times> nat \<times> nat \<Rightarrow> ns16550" where
  "record_card uart idx t p =
     uart\<lparr>ps_bdf := p,
          bar := pci_conf_read32 t p (PCI_BASE_ADDRESS_0 + idx * 4),
          bar_idx := of_nat idx,
          io_base := ucast (pci_conf_read32 t p (PCI_BASE_ADDRESS_0 + idx * 4)
                            AND NOT PCI_BASE_ADDRESS_SPACE_IO),
          irq := (if pci_conf_read8 t p PCI_INTERRUPT_PIN \<noteq> 0
                  then uint (pci_conf_read8 t p PCI_INTERRUPT_LINE) else 0)\<rparr>"

text \<open>
  A serial card for the closed statements: a single-function device of class 0x0700 with
  interrupt pin 1 and line 11, of which BAR 0 is a 4 KiB memory region at 0xfebf0000 and
  BAR 1 an 8-byte I/O region at 0xe000 (\<open>card_mem_io\<close>), or BAR 0 is that I/O region
  (\<open>card_io\<close>); and the machine with that card as function (1, 0, 0) of an otherwise
  empty bus.
\<close>

definition card_mem_io :: pci_fn where
  "card_mem_io =
     \<lparr>cfg = (\<lambda>_. 0)(0x0b := 0x07, 0x12 := 0xbf, 0x13 := 0xfe, 0x14 := 0x01, 0x15 := 0xe0,
                      0x3c := 0x0b, 0x3d := 0x01),
      wmask = (\<lambda>_. 0)(0x04 := 0xff, 0x11 := 0xf0, 0x12 := 0xff, 0x13 := 0xff,
                        0x14 := 0xf8, 0x15 := 0xff, 0x3c := 0xff)\<rparr>"

definition card_io :: pci_fn where
  "card_io =
     \<lparr>cfg = (\<lambda>_. 0)(0x0b := 0x07, 0x10 := 0x01, 0x11 := 0xe0, 0x3c := 0x0b, 0x3d := 0x01),
      wmask = (\<lambda>_. 0)(0x04 := 0xff, 0x10 := 0xf8, 0x11 := 0xff, 0x3c := 0xff)\<rparr>"

definition machine_with :: "pci_fn \<Rightarrow> world" where
  "machine_with fn = (machine (always 0))\<lparr>pci := (\<lambda>_. absent_fn)((1, 0, 0) := fn)\<rparr>"

text \<open>
  The option \<open>115200,8n1,amt\<close> for COM1 on a machine whose PCI bus is empty and whose
  port at 0x3f8 answers the identification probe.
\<close>

definition amt_on_empty_bus :: "parse_outcome \<times> ns16550 \<times> world" where
  "amt_on_empty_bus =
     ns16550_parse_port_config no_parse_pci 0 com1_boot ''115200,8n1,amt''
       (machine (responses [0, 0, 0x0f, 0x90]))"

declare strtoul_digits.simps [simp del]
declare pci_scan_fn.simps [simp del]
declare pci_scan_dev.simps [simp del]
declare pci_scan_bus.simps [simp del]

section \<open>Properties\<close>

subsection \<open>Register access\<close>

lemma ns_read_reg_bus:
  "reads_bus uart \<Longrightarrow> ns_read_reg uart reg w =
     (reg_value uart w 0, w\<lparr>nreads := Suc (nreads w), trace := trace w @ [read_event uart reg]\<rparr>)"
  by (auto simp: reads_bus_def reg_value_def read_event_def ns_read_reg_def inb_def readb_def
      readl_def bus_read_def emit_def)

lemma ns_read_reg_nobus:
  "\<not> reads_bus uart \<Longrightarrow> ns_read_reg uart reg w = (0xff, w)"
  by (auto simp: reads_bus_def ns_read_reg_def)

lemma ns_write_reg_nobus:
  "\<not> reads_bus uart \<Longrightarrow> ns_write_reg uart reg c w = w"
  by (auto simp: reads_bus_def ns_write_reg_def)

lemma ioport_invalid_bus:
  "reads_bus uart \<Longrightarrow> ns16550_ioport_invalid uart w =
     (reg_value uart w 0 = 0xff,
      w\<lparr>nreads := Suc (nreads w), trace := trace w @ [read_event uart UART_IER]\<rparr>)"
  by (simp add: ns16550_ioport_invalid_def ns_read_reg_bus)




subsection \<open>The poll timer\<close>

lemma reg_value_shift [simp]:
  "reg_value uart (w\<lparr>nreads := nreads w + n, trace := tr\<rparr>) k = reg_value uart w (n + k)"
  "reg_value uart (w\<lparr>nreads := Suc (nreads w), trace := tr\<rparr>) k = reg_value uart w (Suc k)"
  by (simp_all add: reg_value_def add.assoc)

lemma poll_rx_drain:
  assumes rb: "reads_bus uart"
  shows "(\<forall>i<N. reg_value uart w (2 * i) AND UART_LSR_DR \<noteq> 0 \<and> reg_value uart w (2 * i + 1) \<noteq> 0xff)
    \<Longrightarrow> reg_value uart w (2 * N) AND UART_LSR_DR = 0 \<or> reg_value uart w (2 * N + 1) = 0xff
    \<Longrightarrow> ns16550_poll_rx uart w =
          Some (reg_value uart w (2 * N) AND UART_LSR_DR \<noteq> 0,
                w\<lparr>nreads := nreads w + 2 * N + (if reg_value uart w (2 * N) AND UART_LSR_DR \<noteq> 0 then 2 else 1),
                  trace := trace w @
                    concat (replicate N [read_event uart UART_LSR, read_event uart UART_IER, Serial_rx_interrupt])
                    @ (if reg_value uart w (2 * N) AND UART_LSR_DR \<noteq> 0
                       then [read_event uart UART_LSR, read_event uart UART_IER]
                       else [read_event uart UART_LSR])\<rparr>)"
proof (induction N arbitrary: w)
  case 0
  then show ?case
    by (subst ns16550_poll_rx.simps) (auto simp: ns_read_reg_bus[OF rb] ioport_invalid_bus[OF rb])
next
  case (Suc N)
  let ?w1 = "w\<lparr>nreads := Suc (Suc (nreads w)),
      trace := trace w @ [read_event uart UART_LSR, read_event uart UART_IER, Serial_rx_interrupt]\<rparr>"
  have h0: "reg_value uart w 0 AND UART_LSR_DR \<noteq> 0" "reg_value uart w (Suc 0) \<noteq> 0xff"
    using Suc.prems(1)[rule_format, of 0] by simp_all
  have step: "ns16550_poll_rx uart w = ns16550_poll_rx uart ?w1"
    by (subst ns16550_poll_rx.simps)
       (simp add: ns_read_reg_bus[OF rb] ioport_invalid_bus[OF rb] h0 serial_rx_interrupt_def emit_def)
  have sh: "\<And>k. reg_value uart ?w1 k = reg_value uart w (2 + k)"
    by (simp add: reg_value_def)
  have p1: "\<forall>i<N. reg_value uart ?w1 (2 * i) AND UART_LSR_DR \<noteq> 0 \<and> reg_value uart ?w1 (2 * i + 1) \<noteq> 0xff"
  proof (intro allI impI)
    fix i assume "i < N"
    then show "reg_value uart ?w1 (2 * i) AND UART_LSR_DR \<noteq> 0 \<and> reg_value uart ?w1 (2 * i + 1) \<noteq> 0xff"
      using Suc.prems(1)[rule_format, of "Suc i"] by (simp only: sh) simp
  qed
  have p2: "reg_value uart ?w1 (2 * N) AND UART_LSR_DR = 0 \<or> reg_value uart ?w1 (2 * N + 1) = 0xff"
    using Suc.prems(2) by (simp only: sh) simp
  show ?case
    unfolding step Suc.IH[OF p1 p2]
    by (simp only: sh) simp
qed


lemma count_list_concat_replicate:
  "count_list (concat (replicate n xs)) e = n * count_list xs e"
  by (induction n) simp_all

lemma read_event_neq [simp]:
  "read_event uart reg \<noteq> Serial_rx_interrupt"
  "read_event uart reg \<noteq> Serial_tx_interrupt"
  "read_event uart reg \<noteq> Set_timer t"
  "read_event uart reg \<noteq> Set_resume_timer"
  by (simp_all add: read_event_def)

text \<open>
  C5, as amended: take a poll-timer invocation with \<open>intr_works\<close> false whose receive
  loop ends, that is, the line-status register reports data-ready N times in a row with
  the hardware-vanished check not holding, and then either reports no data or the check
  holds. It returns, delivers exactly N receive callbacks and arms the poll timer exactly
  once, at \<open>timeout_ms\<close>, as its last action. When the loop ended on the vanished check
  (at iteration N+1), the transmit check is skipped: no further register is read and no
  transmit callback is made.
\<close>

theorem poll_drains_then_rearms_once:
  assumes "\<not> intr_works uart" and rb: "reads_bus uart"
    and dr: "\<forall>i<N. reg_value uart w (2 * i) AND UART_LSR_DR \<noteq> 0 \<and> reg_value uart w (2 * i + 1) \<noteq> 0xff"
    and fin: "reg_value uart w (2 * N) AND UART_LSR_DR = 0 \<or> reg_value uart w (2 * N + 1) = 0xff"
  shows "\<exists>w'. do_ns16550_poll uart w = Some (uart\<lparr>timer := True\<rparr>, w')
     \<and> new_events w w' =
         concat (replicate N [read_event uart UART_LSR, read_event uart UART_IER, Serial_rx_interrupt])
         @ (if reg_value uart w (2 * N) AND UART_LSR_DR \<noteq> 0
            then [read_event uart UART_LSR, read_event uart UART_IER]
            else [read_event uart UART_LSR, read_event uart UART_LSR]
                 @ (if reg_value uart w (2 * N + 1) AND UART_LSR_THRE \<noteq> 0
                    then [Serial_tx_interrupt] else []))
         @ [Set_timer (timeout_ms uart)]
     \<and> count_new Serial_rx_interrupt w w' = N
     \<and> count_new (Set_timer (timeout_ms uart)) w w' = 1
     \<and> (\<forall>t. t \<noteq> timeout_ms uart \<longrightarrow> count_new (Set_timer t) w w' = 0)
     \<and> (reg_value uart w (2 * N) AND UART_LSR_DR \<noteq> 0 \<longrightarrow>
          count_new Serial_tx_interrupt w w' = 0 \<and> nreads w' = nreads w + 2 * N + 2)"
proof (cases "reg_value uart w (2 * N) AND UART_LSR_DR \<noteq> 0")
  case True
  show ?thesis
    using assms(1) True
    by (simp add: do_ns16550_poll_def poll_rx_drain[OF rb dr fin] set_timer_def emit_def
        new_events_def count_new_def count_list_concat_replicate)
next
  case False
  show ?thesis
    using assms(1) False
    by (simp add: do_ns16550_poll_def poll_rx_drain[OF rb dr fin] set_timer_def emit_def
        new_events_def count_new_def count_list_concat_replicate ns_read_reg_bus[OF rb]
        serial_tx_interrupt_def reg_value_def)
qed

text \<open>
  A device whose line-status register always reports data-ready and whose
  interrupt-enable register never reads 0xff keeps the receive loop running.
\<close>

lemma poll_rx_stuck_aux:
  assumes "ns16550_poll_rx uart0 w0 = Some r0"
  shows "reads_bus uart0 \<longrightarrow> bus_in w0 = always 1 \<longrightarrow> False"
proof (rule ns16550_poll_rx.raw_induct
    [where P = "\<lambda>uart w r. reads_bus uart \<longrightarrow> bus_in w = always 1 \<longrightarrow> False", OF _ assms],
    intro impI)
  fix f :: "ns16550 \<Rightarrow> world \<Rightarrow> (bool \<times> world) option" and uart w r
  assume IH: "\<And>u v y. f u v = Some y \<Longrightarrow> reads_bus u \<longrightarrow> bus_in v = always 1 \<longrightarrow> False"
    and body: "(case ns_read_reg uart UART_LSR w of
      (lsr, w1) \<Rightarrow>
        if lsr AND UART_LSR_DR \<noteq> 0
        then case ns16550_ioport_invalid uart w1 of
             (invalid, w2) \<Rightarrow>
               if invalid then Some (True, w2)
               else f uart (serial_rx_interrupt w2)
        else Some (False, w1)) = Some r"
    and rb: "reads_bus uart" and bi: "bus_in w = always 1"
  from body have "f uart (serial_rx_interrupt (w\<lparr>nreads := Suc (Suc (nreads w)),
      trace := trace w @ [read_event uart UART_LSR, read_event uart UART_IER]\<rparr>)) = Some r"
    by (simp add: ns_read_reg_bus[OF rb] ioport_invalid_bus[OF rb] reg_value_def rb bi always_def
        UART_LSR_DR_def)
  from IH[OF this] rb bi show False
    by (simp add: serial_rx_interrupt_def emit_def)
qed

lemma poll_rx_stuck:
  "reads_bus uart \<Longrightarrow> bus_in w = always 1 \<Longrightarrow> ns16550_poll_rx uart w = None"
  using poll_rx_stuck_aux[of uart w] by (cases "ns16550_poll_rx uart w") auto


text \<open>
  C5 as stated fails: with \<open>intr_works\<close> false and every register reading 0x01, the
  invocation never returns, and the timer is not rearmed.
\<close>

theorem poll_never_returns_counterexample:
  "\<not> intr_works com1 \<and> do_ns16550_poll com1 (machine (always 1)) = None"
proof -
  have rb: "reads_bus com1" by (simp add: reads_bus_def com1_def ns16550_com0_def)
  have "ns16550_poll_rx com1 (machine (always 1)) = None"
    by (rule poll_rx_stuck[OF rb]) (simp add: machine_def)
  then show ?thesis
    by (simp add: do_ns16550_poll_def com1_def ns16550_com0_def)
qed


lemma com1_simps:
  "\<not> intr_works com1" "reads_bus com1" "remapped_io_base com1 = 0" "timeout_ms com1 = 1"
  "io_base com1 = 0x3f8" "fifo_size com1 = 16"
  by (simp_all add: com1_def ns16550_com0_def reads_bus_def)

text \<open>
  Two bytes, then the port vanishes: the line-status register reads 1 three times, the
  interrupt-enable register reads 0, 0 and 0xff.
\<close>

theorem poll_drains_then_rearms_once_witness:
  "\<not> intr_works com1 \<and> reads_bus com1
   \<and> reg_value com1 (machine (responses [1, 0, 1, 0, 1, 0xff])) 4 AND UART_LSR_DR \<noteq> 0
   \<and> reg_value com1 (machine (responses [1, 0, 1, 0, 1, 0xff])) 5 = 0xff
   \<and> (\<exists>w'. do_ns16550_poll com1 (machine (responses [1, 0, 1, 0, 1, 0xff]))
              = Some (com1\<lparr>timer := True\<rparr>, w')
          \<and> count_new Serial_rx_interrupt (machine (responses [1, 0, 1, 0, 1, 0xff])) w' = 2
          \<and> count_new Serial_tx_interrupt (machine (responses [1, 0, 1, 0, 1, 0xff])) w' = 0
          \<and> count_new (Set_timer 1) (machine (responses [1, 0, 1, 0, 1, 0xff])) w' = 1
          \<and> nreads w' = 6)"
proof -
  let ?w = "machine (responses [1, 0, 1, 0, 1, 0xff])"
  have v: "reg_value com1 ?w 0 = 1" "reg_value com1 ?w 1 = 0" "reg_value com1 ?w 2 = 1"
    "reg_value com1 ?w 3 = 0" "reg_value com1 ?w 4 = 1" "reg_value com1 ?w 5 = 0xff"
    by (simp_all add: reg_value_def com1_simps machine_def responses_def)
  have dr: "\<forall>i<2. reg_value com1 ?w (2 * i) AND UART_LSR_DR \<noteq> 0 \<and> reg_value com1 ?w (2 * i + 1) \<noteq> 0xff"
  proof (intro allI impI)
    fix i :: nat assume "i < 2"
    then have "i = 0 \<or> i = 1" by auto
    then show "reg_value com1 ?w (2 * i) AND UART_LSR_DR \<noteq> 0 \<and> reg_value com1 ?w (2 * i + 1) \<noteq> 0xff"
      using v by (auto simp: UART_LSR_DR_def)
  qed
  have fin: "reg_value com1 ?w (2 * 2) AND UART_LSR_DR = 0 \<or> reg_value com1 ?w (2 * 2 + 1) = 0xff"
    using v by simp
  have n0: "nreads ?w = 0" by (simp add: machine_def)
  show ?thesis
    using poll_drains_then_rearms_once[OF com1_simps(1) com1_simps(2) dr fin] v n0
    by (auto simp: com1_simps UART_LSR_DR_def)
qed

subsection \<open>The interrupt latch\<close>

lemma setup_preirq_clears_intr_works:
  "ns16550_setup_preirq uart w = Some (uart', w') \<Longrightarrow> \<not> intr_works uart'"
  by (auto simp: ns16550_setup_preirq_def setup_divisor_def Let_def
      split: option.splits if_splits prod.splits)

lemma setup_postirq_intr_works:
  "intr_works (fst (ns16550_setup_postirq uart w)) = intr_works uart"
  by (simp add: ns16550_setup_postirq_def set_timer_def Let_def)

lemma do_resume_clears_intr_works:
  "do_ns16550_resume uart w = Some (uart', w') \<Longrightarrow> \<not> intr_works uart'"
  using setup_postirq_intr_works
  by (auto simp: do_ns16550_resume_def Let_def split: option.splits if_splits
      dest!: setup_preirq_clears_intr_works) (metis fst_conv)+

lemma init_postirq_intr_works:
  "ns16550_init_postirq uart w = Some (uart', w') \<Longrightarrow> intr_works uart' = intr_works uart"
  by (auto simp: ns16550_init_postirq_def ns16550_setup_postirq_def set_timer_def Let_def
      split: if_splits prod.splits)

text \<open>
  C1, as amended: while \<open>intr_works\<close> is true a poll-timer invocation is a no-op: it
  returns the descriptor and the machine as they were, with no register read or written.
  \<open>intr_works\<close> stays true across every operation of the callback table but the two
  that run \<open>ns16550_setup_preirq\<close>: it survives init-postirq, endboot, suspend, the
  queries, put-char, get-char, and a resume that finds the port invalid and only schedules
  a retry; the interrupt handler sets it. The real resume and init-preirq reset it to
  false.
\<close>

theorem intr_works_latch:
  assumes "intr_works uart"
  shows "do_ns16550_poll uart w = Some (uart, w)
    \<and> (\<forall>op uart' w'. (\<forall>v. op \<noteq> Init_preirq v) \<and> (op = Resume \<longrightarrow> fst (ns16550_ioport_invalid uart w))
          \<and> ns16550_driver R op uart w = Some (uart', w') \<longrightarrow> intr_works uart')
    \<and> (\<forall>uart' w'. ns16550_interrupt uart w = Some (uart', w') \<longrightarrow> intr_works uart')
    \<and> (\<forall>uart' w'. do_ns16550_resume uart w = Some (uart', w') \<longrightarrow> \<not> intr_works uart')
    \<and> (\<forall>v uart' w'. ns16550_init_preirq v uart w = Some (uart', w') \<longrightarrow> \<not> intr_works uart')"
proof (intro conjI allI impI)
  show "do_ns16550_poll uart w = Some (uart, w)"
    using assms by (simp add: do_ns16550_poll_def)
next
  fix op uart' w'
  assume h: "(\<forall>v. op \<noteq> Init_preirq v) \<and> (op = Resume \<longrightarrow> fst (ns16550_ioport_invalid uart w))
          \<and> ns16550_driver R op uart w = Some (uart', w')"
  show "intr_works uart'"
  proof (cases op)
    case (Init_preirq x) with h show ?thesis by simp
  next
    case Init_postirq with h assms show ?thesis by (simp add: init_postirq_intr_works)
  next
    case Endboot with h assms show ?thesis by auto
  next
    case Suspend with h assms show ?thesis
      by (auto simp: ns16550_suspend_def stop_timer_def split: if_splits)
  next
    case Resume with h assms show ?thesis
      by (auto simp: ns16550_resume_def set_resume_timer_def split: prod.splits if_splits)
  next
    case Tx_ready with h assms show ?thesis by simp
  next
    case (Putc c) with h assms show ?thesis by simp
  next
    case Getc with h assms show ?thesis by simp
  next
    case Irq with h assms show ?thesis by simp
  qed
next
  fix uart' w' assume "ns16550_interrupt uart w = Some (uart', w')"
  then show "intr_works uart'"
    by (auto simp: ns16550_interrupt_def split: option.splits)
next
  fix uart' w' assume "do_ns16550_resume uart w = Some (uart', w')"
  then show "\<not> intr_works uart'" by (rule do_resume_clears_intr_works)
next
  fix v uart' w' assume "ns16550_init_preirq v uart w = Some (uart', w')"
  then show "\<not> intr_works uart'"
    by (auto simp: ns16550_init_preirq_def Let_def split: if_splits option.splits prod.splits
        dest!: setup_preirq_clears_intr_works)
qed


text \<open>The latch on COM1 after its first interrupt: the poll is a no-op, and suspend keeps it.\<close>

theorem intr_works_latch_witness:
  "intr_works (com1\<lparr>intr_works := True\<rparr>)
   \<and> do_ns16550_poll (com1\<lparr>intr_works := True\<rparr>) (machine (always 0))
       = Some (com1\<lparr>intr_works := True\<rparr>, machine (always 0))
   \<and> intr_works (fst (ns16550_suspend (com1\<lparr>intr_works := True\<rparr>) (machine (always 0))))"
proof -
  have h: "intr_works (com1\<lparr>intr_works := True\<rparr>)" by simp
  note t = intr_works_latch[OF h, of "machine (always 0)" 100]
  have a: "do_ns16550_poll (com1\<lparr>intr_works := True\<rparr>) (machine (always 0))
       = Some (com1\<lparr>intr_works := True\<rparr>, machine (always 0))"
    using t by blast
  have "ns16550_driver 100 Suspend (com1\<lparr>intr_works := True\<rparr>) (machine (always 0))
      = Some (ns16550_suspend (com1\<lparr>intr_works := True\<rparr>) (machine (always 0)))"
    by simp
  moreover have "\<forall>v. Suspend \<noteq> Init_preirq v" "Suspend \<noteq> Resume" by simp_all
  moreover from t have "\<forall>op uart' w'. (\<forall>v. op \<noteq> Init_preirq v)
          \<and> (op = Resume \<longrightarrow> fst (ns16550_ioport_invalid (com1\<lparr>intr_works := True\<rparr>) (machine (always 0))))
          \<and> ns16550_driver 100 op (com1\<lparr>intr_works := True\<rparr>) (machine (always 0)) = Some (uart', w')
          \<longrightarrow> intr_works uart'"
    by (elim conjE)
  ultimately have b: "intr_works (fst (ns16550_suspend (com1\<lparr>intr_works := True\<rparr>) (machine (always 0))))"
    using prod.collapse[of "ns16550_suspend (com1\<lparr>intr_works := True\<rparr>) (machine (always 0))"]
    by (elim allE[where x = Suspend] allE[where x = "fst (ns16550_suspend (com1\<lparr>intr_works := True\<rparr>) (machine (always 0)))"]
          allE[where x = "snd (ns16550_suspend (com1\<lparr>intr_works := True\<rparr>) (machine (always 0)))"]) simp
  show ?thesis using h a b by simp
qed

subsection \<open>A register width that is neither 1 nor 4\<close>






subsection \<open>The real resume resets the latch\<close>

lemma s32_com1: "s32 (115200 * 16) = 1843200"
  by (simp add: s32_def)

lemma setup_preirq_returns:
  "baud uart \<noteq> BAUD_AUTO \<Longrightarrow> s32 (baud uart * 16) \<noteq> 0
   \<Longrightarrow> \<exists>r. ns16550_setup_preirq uart w = Some r"
  by (simp add: ns16550_setup_preirq_def setup_divisor_def Let_def)

lemma do_resume_returns:
  assumes "baud uart \<noteq> BAUD_AUTO" "s32 (baud uart * 16) \<noteq> 0"
  shows "\<exists>r. do_ns16550_resume uart w = Some r"
proof -
  let ?w1 = "if bar uart \<noteq> 0 then
                  w\<lparr>pci := pci_conf_write16
                             (pci_conf_write32 (pci w) (ps_bdf uart)
                                (PCI_BASE_ADDRESS_0 + unat (bar_idx uart) * 4) (bar uart))
                             (ps_bdf uart) PCI_COMMAND (cr uart)\<rparr>
                else w"
  obtain r where "ns16550_setup_preirq uart ?w1 = Some r"
    using setup_preirq_returns[OF assms] by blast
  then show ?thesis
    by (cases r) (simp add: do_ns16550_resume_def Let_def)
qed

text \<open>
  C1 as stated fails: on COM1 with \<open>intr_works\<close> true, a resume that finds the port
  present (the interrupt-enable register reads 0) leaves \<open>intr_works\<close> false.
\<close>

theorem resume_clears_intr_works_counterexample:
  "intr_works (com1\<lparr>intr_works := True\<rparr>)
   \<and> map_option (\<lambda>r. intr_works (fst r))
        (ns16550_driver 100 Resume (com1\<lparr>intr_works := True\<rparr>) (machine (always 0)))
       = Some False"
proof -
  let ?u = "com1\<lparr>intr_works := True\<rparr>"
  let ?w = "machine (always 0)"
  have rb: "reads_bus ?u" by (simp add: reads_bus_def com1_simps)
  have v: "reg_value ?u ?w 0 = 0"
    by (simp add: reg_value_def rb machine_def always_def)
  have b: "baud ?u \<noteq> BAUD_AUTO" "s32 (baud ?u * 16) \<noteq> 0"
    by (simp_all add: com1_def ns16550_com0_def BAUD_AUTO_def s32_def)
  obtain w1 where inv: "ns16550_ioport_invalid ?u ?w = (False, w1)"
    by (simp add: ioport_invalid_bus[OF rb] v)
  obtain r where r: "do_ns16550_resume ?u w1 = Some r"
    using do_resume_returns[OF b] by blast
  have "\<not> intr_works (fst r)"
    using do_resume_clears_intr_works[of ?u w1 "fst r" "snd r"] r by simp
  then show ?thesis
    by (simp add: ns16550_resume_def inv r)
qed


subsection \<open>The poll interval\<close>







text \<open>With a baud rate of 0 the division of \<open>ns16550_init_postirq\<close> traps.\<close>

lemma init_postirq_zero_baud:
  "0 \<le> irq uart \<Longrightarrow> baud uart = 0 \<Longrightarrow> ns16550_init_postirq uart w = None"
  by (simp add: ns16550_init_postirq_def Let_def)


subsection \<open>Resume with retries\<close>

lemma resume_timer_expires_n_None [simp]: "resume_timer_expires_n k None = None"
  by (cases k) simp_all







lemma delayed_resume_tries_after_retries [simp]:
  "delayed_resume_tries (after_retries uart T j w) = T - (int j - 1)"
  by (simp add: after_retries_def)














subsection \<open>The parser\<close>

lemmas parse_defs = strtoul_digits.simps parse_baud_def parse_dps_def
  parse_location_def parse_irq_def parse_bdfs_def next_field_def chr_at_def simple_strtoul_def
  simple_strtol_def isdigit_def isxdigit_def toupper_def

lemma parse_parity_char_other:
  "c \<notin> {CHR ''n'', CHR ''o'', CHR ''e'', CHR ''m'', CHR ''s''} \<Longrightarrow> parse_parity_char c = 0"
  by (simp add: parse_parity_char_def)

lemma strtoul_digits_stop:
  "\<not> isdigit c \<Longrightarrow> strtoul_digits 10 acc (c # cs) = (acc, c # cs)"
  by (auto simp: strtoul_digits.simps isdigit_def isxdigit_def toupper_def Let_def)

lemma parse_dps_any_parity:
  assumes "c \<notin> {CHR ''n'', CHR ''o'', CHR ''e'', CHR ''m'', CHR ''s''}" "\<not> isdigit c"
  shows "parse_dps uart ('',8'' @ c # ''1'') = parse_dps uart '',8n1''"
proof -
  have p: "parse_parity_char c = parse_parity_char CHR ''n''"
    using parse_parity_char_other[OF assms(1)] by (simp add: parse_parity_char_def UART_PARITY_NONE_def)
  have d: "strtoul_digits 10 0 (CHR ''8'' # c # ''1'') = (8, c # ''1'')"
    by (subst strtoul_digits.simps)
       (simp add: isdigit_def isxdigit_def strtoul_digits_stop[OF assms(2)] del: strtoul_digits.simps)
  have e: "strtoul_digits 10 0 ''8n1'' = (8, ''n1'')"
    by (simp add: isdigit_def isxdigit_def toupper_def strtoul_digits.simps)
  have f: "next_field ('',8'' @ c # ''1'') = (True, CHR ''8'' # c # ''1'')"
    "next_field '',8n1'' = (True, ''8n1'')"
    by (simp_all add: next_field_def chr_at_def)
  show ?thesis
    unfolding parse_dps_def f simple_strtoul_def
    by (simp add: d e p chr_at_def del: strtoul_digits.simps)
qed

lemma parse_baud_115200:
  "parse_baud uart (''115200'' @ CHR '','' # rest) = (uart\<lparr>baud := 115200\<rparr>, CHR '','' # rest)"
  by (simp add: parse_defs s32_def)

text \<open>
  C9: a character in the parity position of the DPS field that is not one of \<open>n\<close>,
  \<open>o\<close>, \<open>e\<close>, \<open>m\<close>, \<open>s\<close> is not rejected: \<open>parse_parity_char\<close> returns for it what it
  returns for \<open>n\<close>, parity none. So the option \<open>115200,8c1\<close>, for any such character c
  (which, standing after the data bits, is not a digit), is parsed exactly as \<open>115200,8n1\<close>
  is, whatever the descriptor and the machine.
\<close>

theorem parity_char_defaults_to_none:
  assumes "c \<notin> {CHR ''n'', CHR ''o'', CHR ''e'', CHR ''m'', CHR ''s''}"
  shows "parse_parity_char c = parse_parity_char CHR ''n''
    \<and> parse_parity_char c = UART_PARITY_NONE
    \<and> (\<not> isdigit c \<longrightarrow>
         ns16550_parse_port_config parse_pci slot uart (''115200,8'' @ c # ''1'') w
         = ns16550_parse_port_config parse_pci slot uart ''115200,8n1'' w)"
proof (intro conjI impI)
  show "parse_parity_char c = parse_parity_char CHR ''n''"
    using parse_parity_char_other[OF assms] by (simp add: parse_parity_char_def UART_PARITY_NONE_def)
  show "parse_parity_char c = UART_PARITY_NONE"
    using parse_parity_char_other[OF assms] by (simp add: UART_PARITY_NONE_def)
  assume nd: "\<not> isdigit c"
  have b1: "parse_baud uart (''115200,8'' @ c # ''1'') = (uart\<lparr>baud := 115200\<rparr>, '',8'' @ c # ''1'')"
    using parse_baud_115200[of uart "CHR ''8'' # c # ''1''"] by simp
  have b2: "parse_baud uart ''115200,8n1'' = (uart\<lparr>baud := 115200\<rparr>, '',8n1'')"
    using parse_baud_115200[of uart "''8n1''"] by simp
  have "parse_fields parse_pci slot uart (''115200,8'' @ c # ''1'') w
      = parse_fields parse_pci slot uart ''115200,8n1'' w"
    unfolding parse_fields_def b1 b2
    using parse_dps_any_parity[OF assms nd, of "uart\<lparr>baud := 115200\<rparr>"] by simp
  then show "ns16550_parse_port_config parse_pci slot uart (''115200,8'' @ c # ''1'') w
         = ns16550_parse_port_config parse_pci slot uart ''115200,8n1'' w"
    by (simp add: ns16550_parse_port_config_def)
qed


subsection \<open>The probe\<close>

lemma ns_write_reg_bus:
  "reads_bus uart \<Longrightarrow> ns_write_reg uart reg c w = w\<lparr>trace := trace w @ [write_event uart reg c]\<rparr>"
  by (auto simp: reads_bus_def write_event_def ns_write_reg_def outb_def writeb_def writel_def
      emit_def)

lemma early_init_frame [simp]:
  "trace (pci_serial_early_init uart w) = trace w"
  "nreads (pci_serial_early_init uart w) = nreads w"
  "bus_in (pci_serial_early_init uart w) = bus_in w"
  by (simp_all add: pci_serial_early_init_def Let_def)

lemma reg_value_early_init [simp]:
  "reg_value uart (pci_serial_early_init uart' w) k = reg_value uart w k"
  by (simp add: reg_value_def)

lemma check_existence_mmio:
  "io_base uart \<ge> 0x10000 \<Longrightarrow> check_existence uart w = (True, w)"
  by (simp add: check_existence_def)

lemma check_existence_probe:
  assumes rb: "reads_bus uart" and io: "io_base uart < 0x10000"
  shows "check_existence uart w =
    (reg_value uart w 1 AND 0x0f = 0 \<and> reg_value uart w 2 AND 0x0f = 0x0f
       \<and> reg_value uart w 3 AND 0xf0 = 0x90,
     (pci_serial_early_init uart w)
       \<lparr>nreads := nreads w
            + (if reg_value uart w 1 AND 0x0f = 0 \<and> reg_value uart w 2 AND 0x0f = 0x0f
               then 4 else 3),
        trace := trace w @
          [read_event uart UART_IER, write_event uart UART_IER 0,
           read_event uart UART_IER, write_event uart UART_IER 0x0f,
           read_event uart UART_IER, write_event uart UART_IER (reg_value uart w 0)]
          @ (if reg_value uart w 1 AND 0x0f = 0 \<and> reg_value uart w 2 AND 0x0f = 0x0f
             then [write_event uart UART_MCR 0x1a, read_event uart UART_MSR] else [])\<rparr>)"
proof -
  have nio: "\<not> io_base uart \<ge> 0x10000" using io by simp
  show ?thesis
    unfolding check_existence_def
    by (auto simp: nio Let_def ns_read_reg_bus[OF rb] ns_write_reg_bus[OF rb] UART_MCR_LOOP_def
        reg_value_def rb numeral_eq_Suc)
qed


lemma bus_events_not_registration [simp]:
  "read_event uart reg \<noteq> Serial_register_uart s"
  "write_event uart reg c \<noteq> Serial_register_uart s"
  "Serial_register_uart s \<noteq> read_event uart reg"
  "Serial_register_uart s \<noteq> write_event uart reg c"
  by (simp_all add: read_event_def write_event_def)

lemma check_existence_trace:
  "\<exists>evs. trace (snd (check_existence uart w)) = trace w @ evs \<and> Serial_register_uart s \<notin> set evs"
proof (cases "io_base uart \<ge> 0x10000")
  case True
  then show ?thesis by (simp add: check_existence_mmio)
next
  case False
  then have io: "io_base uart < 0x10000" by simp
  show ?thesis
  proof (cases "reads_bus uart")
    case True
    show ?thesis unfolding check_existence_probe[OF True io] by simp
  next
    case nb: False
    show ?thesis
      using False
      by (simp add: check_existence_def Let_def ns_read_reg_nobus[OF nb] ns_write_reg_nobus[OF nb])
  qed
qed

lemma config_parsed_registers:
  "fst (config_parsed slot uart w) = Registered \<longleftrightarrow>
     (baud uart = BAUD_AUTO \<or> (1200 \<le> baud uart \<and> baud uart \<le> 115200))
     \<and> 5 \<le> data_bits uart \<and> data_bits uart \<le> 8
     \<and> (stop_bits uart = 1 \<or> stop_bits uart = 2)
     \<and> io_base uart \<noteq> 0
     \<and> fst (check_existence uart w)"
  by (auto simp: config_parsed_def split: prod.splits)

lemma config_parsed_event:
  assumes "Serial_register_uart slot \<notin> set (trace w)"
  shows "Serial_register_uart slot \<in> set (trace (snd (snd (config_parsed slot uart w))))
         \<longleftrightarrow> fst (config_parsed slot uart w) = Registered"
proof -
  obtain evs where e: "trace (snd (check_existence uart w)) = trace w @ evs"
    "Serial_register_uart slot \<notin> set evs"
    using check_existence_trace[of uart w slot] by blast
  show ?thesis
    using assms e
    by (cases "check_existence uart w") (auto simp: config_parsed_def emit_def)
qed

lemma pci_uart_config_frame:
  "pci_uart_config uart skip idx w = (rc, uart', w') \<Longrightarrow>
     trace w' = trace w \<and> nreads w' = nreads w \<and> bus_in w' = bus_in w"
  by (auto simp: pci_uart_config_def split: prod.splits bool.splits if_splits)

lemma parse_location_frame:
  "parse_location slot uart conf w = (ok, uart', conf', w') \<Longrightarrow>
     trace w' = trace w \<and> nreads w' = nreads w \<and> bus_in w' = bus_in w"
  by (auto simp: parse_location_def split: prod.splits bool.splits if_splits
      dest: pci_uart_config_frame)

lemma parse_fields_frame:
  "parse_fields parse_pci slot uart conf w = (e, uart', w') \<Longrightarrow>
     trace w' = trace w \<and> nreads w' = nreads w \<and> bus_in w' = bus_in w"
  by (auto simp: parse_fields_def split: prod.splits bool.splits if_splits
      dest: parse_location_frame)

text \<open>
  C3, as amended: \<open>ns16550_parse_port_config\<close> registers a descriptor if and only if the
  parser reaches its validation step (the option is not empty with no default baud rate,
  a bus scan asked for by \<open>amt\<close> found a card, and the PCI coordinates given parse) and
  every validation passes there: baud is the auto sentinel or lies in [1200,115200],
  data\_bits lies in [5,8], stop\_bits is 1 or 2, io\_base is nonzero, and the
  identification probe succeeds. Otherwise the controller is left unregistered: no
  registration event is added. The probe of a candidate with io\_base at or above 0x10000
  is skipped and it is treated as present; otherwise the probe succeeds exactly when the
  interrupt-enable register reads back 0x0 and then 0xF in its low nibble and the
  modem-status register reads 0x9 in its high nibble in loopback mode, and in every case
  the third write to the interrupt-enable register restores the value read first.
\<close>

theorem parse_port_config_registers_iff:
  "(fst (ns16550_parse_port_config parse_pci slot uart conf w) = Registered \<longleftrightarrow>
      (\<exists>uart' w'. parse_fields parse_pci slot uart conf w = (None, uart', w')
         \<and> (baud uart' = BAUD_AUTO \<or> (1200 \<le> baud uart' \<and> baud uart' \<le> 115200))
         \<and> 5 \<le> data_bits uart' \<and> data_bits uart' \<le> 8
         \<and> (stop_bits uart' = 1 \<or> stop_bits uart' = 2)
         \<and> io_base uart' \<noteq> 0
         \<and> fst (check_existence uart' w')))
   \<and> (Serial_register_uart slot \<notin> set (trace w) \<longrightarrow>
        (Serial_register_uart slot
           \<in> set (trace (snd (snd (ns16550_parse_port_config parse_pci slot uart conf w))))
         \<longleftrightarrow> fst (ns16550_parse_port_config parse_pci slot uart conf w) = Registered))
   \<and> (io_base u \<ge> 0x10000 \<longrightarrow> check_existence u v = (True, v))
   \<and> (reads_bus u \<and> io_base u < 0x10000 \<longrightarrow>
        fst (check_existence u v) =
          (reg_value u v 1 AND 0x0f = 0 \<and> reg_value u v 2 AND 0x0f = 0x0f
           \<and> reg_value u v 3 AND 0xf0 = 0x90)
        \<and> new_events v (snd (check_existence u v)) =
            [read_event u UART_IER, write_event u UART_IER 0,
             read_event u UART_IER, write_event u UART_IER 0x0f,
             read_event u UART_IER, write_event u UART_IER (reg_value u v 0)]
            @ (if reg_value u v 1 AND 0x0f = 0 \<and> reg_value u v 2 AND 0x0f = 0x0f
               then [write_event u UART_MCR 0x1a, read_event u UART_MSR] else []))"
proof (intro conjI impI)
  obtain e u1 w1 where pf: "parse_fields parse_pci slot uart conf w = (e, u1, w1)"
    by (cases "parse_fields parse_pci slot uart conf w") auto
  show "fst (ns16550_parse_port_config parse_pci slot uart conf w) = Registered \<longleftrightarrow>
      (\<exists>uart' w'. parse_fields parse_pci slot uart conf w = (None, uart', w')
         \<and> (baud uart' = BAUD_AUTO \<or> (1200 \<le> baud uart' \<and> baud uart' \<le> 115200))
         \<and> 5 \<le> data_bits uart' \<and> data_bits uart' \<le> 8
         \<and> (stop_bits uart' = 1 \<or> stop_bits uart' = 2)
         \<and> io_base uart' \<noteq> 0
         \<and> fst (check_existence uart' w'))"
  proof (cases e)
    case None
    show ?thesis
      using config_parsed_registers[of slot u1 w1]
      by (simp add: ns16550_parse_port_config_def pf None)
  next
    case (Some err)
    have "err \<noteq> Registered"
      using pf Some
      by (auto simp: parse_fields_def parse_bdfs_def split: prod.splits bool.splits if_splits
          option.splits)
    then show ?thesis
      by (simp add: ns16550_parse_port_config_def pf Some)
  qed
  {
    assume nr: "Serial_register_uart slot \<notin> set (trace w)"
    have tr: "trace w1 = trace w" using parse_fields_frame[OF pf] by simp
    show "Serial_register_uart slot
           \<in> set (trace (snd (snd (ns16550_parse_port_config parse_pci slot uart conf w))))
         \<longleftrightarrow> fst (ns16550_parse_port_config parse_pci slot uart conf w) = Registered"
    proof (cases e)
      case None
      show ?thesis
        using config_parsed_event[of slot w1 u1] nr tr
        by (simp add: ns16550_parse_port_config_def pf None)
    next
      case (Some err)
      have "err \<noteq> Registered"
        using pf Some
        by (auto simp: parse_fields_def parse_bdfs_def split: prod.splits bool.splits if_splits
            option.splits)
      then show ?thesis
        using nr tr by (simp add: ns16550_parse_port_config_def pf Some)
    qed
  }
  {
    assume "io_base u \<ge> 0x10000"
    then show "check_existence u v = (True, v)" by (rule check_existence_mmio)
  }
  {
    assume h: "reads_bus u \<and> io_base u < 0x10000"
    show "fst (check_existence u v) =
          (reg_value u v 1 AND 0x0f = 0 \<and> reg_value u v 2 AND 0x0f = 0x0f
           \<and> reg_value u v 3 AND 0xf0 = 0x90)"
      using check_existence_probe[of u v] h by simp
    show "new_events v (snd (check_existence u v)) =
            [read_event u UART_IER, write_event u UART_IER 0,
             read_event u UART_IER, write_event u UART_IER 0x0f,
             read_event u UART_IER, write_event u UART_IER (reg_value u v 0)]
            @ (if reg_value u v 1 AND 0x0f = 0 \<and> reg_value u v 2 AND 0x0f = 0x0f
               then [write_event u UART_MCR 0x1a, read_event u UART_MSR] else [])"
      using check_existence_probe[of u v] h by (simp add: new_events_def)
  }
qed


subsection \<open>An empty bus\<close>

lemma absent_class: "pci_conf_read16 (\<lambda>_. absent_fn) bdf PCI_CLASS_DEVICE = 0xffff"
  by (simp add: pci_conf_read16_def absent_fn_def word_cat_eq)

lemma pci_scan_fn_absent:
  "pci_scan_fn uart idx b d 0 (\<lambda>_. absent_fn) = (False, uart, \<lambda>_. absent_fn)"
  by (subst pci_scan_fn.simps, simp add: absent_class Let_def)
     (subst pci_scan_fn.simps, simp)

lemma pci_scan_dev_absent:
  "pci_scan_dev uart idx b d (\<lambda>_. absent_fn) = (False, uart, \<lambda>_. absent_fn)"
proof (induction "32 - d" arbitrary: d)
  case 0
  then show ?case by (subst pci_scan_dev.simps) simp
next
  case (Suc n)
  then have "pci_scan_dev uart idx b (d + 1) (\<lambda>_. absent_fn) = (False, uart, \<lambda>_. absent_fn)"
    by simp
  then show ?case
    by (subst pci_scan_dev.simps) (simp add: pci_scan_fn_absent)
qed

lemma pci_scan_bus_absent:
  "pci_scan_bus uart idx b (\<lambda>_. absent_fn) = (False, uart, \<lambda>_. absent_fn)"
proof (induction "256 - b" arbitrary: b)
  case 0
  then show ?case by (subst pci_scan_bus.simps) simp
next
  case (Suc n)
  then have "pci_scan_bus uart idx (b + 1) (\<lambda>_. absent_fn) = (False, uart, \<lambda>_. absent_fn)"
    by simp
  then show ?case
    by (subst pci_scan_bus.simps) (simp add: pci_scan_dev_absent)
qed

lemma pci_uart_config_amt_absent:
  "pci w = (\<lambda>_. absent_fn) \<Longrightarrow> pci_uart_config uart False idx w = (- 1, uart, w)"
  by (simp add: pci_uart_config_def pci_scan_bus_absent)

subsection \<open>Parsing the examples\<close>

lemma parse_fields_8n1:
  "parse_fields parse_pci slot com1_boot ''115200,8n1'' w
     = (None, com1_boot\<lparr>baud := 115200, data_bits := 8, parity := 0, stop_bits := 1\<rparr>, w)"
  by (simp add: parse_fields_def parse_defs s32_def parse_parity_char_def UART_PARITY_NONE_def)

lemma char_of_88: "char_of (88 :: nat) = CHR ''X''"
  by code_simp

lemma parse_fields_8n1_port_irq:
  "parse_fields parse_pci slot com1_boot ''115200,8n1,0x2f8,3'' w
     = (None, com1_boot\<lparr>baud := 115200, data_bits := 8, parity := 0, stop_bits := 1,
                         io_base := 0x2f8, irq := 3\<rparr>, w)"
  by (simp add: parse_fields_def parse_defs s32_def parse_parity_char_def UART_PARITY_NONE_def
      char_of_88)

lemma parse_fields_amt:
  "pci w = (\<lambda>_. absent_fn) \<Longrightarrow>
   parse_fields parse_pci slot com1_boot ''115200,8n1,amt'' w
     = (Some Scan_failed,
        com1_boot\<lparr>baud := 115200, data_bits := 8, parity := 0, stop_bits := 1\<rparr>, w)"
  by (simp add: parse_fields_def parse_defs s32_def parse_parity_char_def UART_PARITY_NONE_def
      pci_uart_config_amt_absent)


lemma com1_parsed_simps:
  "reads_bus (com1_boot\<lparr>baud := 115200, data_bits := 8, parity := 0, stop_bits := 1\<rparr>)"
  "io_base (com1_boot\<lparr>baud := 115200, data_bits := 8, parity := 0, stop_bits := 1\<rparr>) = 0x3f8"
  "reads_bus (com1_boot\<lparr>baud := 115200, data_bits := 8, parity := 0, stop_bits := 1,
                         io_base := 0x2f8, irq := 3\<rparr>)"
  by (simp_all add: reads_bus_def com1_boot_def ns16550_com0_def)

lemma config_parsed_ok:
  assumes "baud uart = BAUD_AUTO \<or> (1200 \<le> baud uart \<and> baud uart \<le> 115200)"
    "5 \<le> data_bits uart" "data_bits uart \<le> 8" "stop_bits uart = 1 \<or> stop_bits uart = 2"
    "io_base uart \<noteq> 0" "fst (check_existence uart w)"
  shows "config_parsed slot uart w
    = (Registered, uart, emit (Serial_register_uart slot) (snd (check_existence uart w)))"
  using assms by (cases "check_existence uart w") (auto simp: config_parsed_def)

lemma com1_parsed_fields:
  "baud (com1_boot\<lparr>baud := 115200, data_bits := 8, parity := 0, stop_bits := 1\<rparr>) = 115200"
  "data_bits (com1_boot\<lparr>baud := 115200, data_bits := 8, parity := 0, stop_bits := 1\<rparr>) = 8"
  "stop_bits (com1_boot\<lparr>baud := 115200, data_bits := 8, parity := 0, stop_bits := 1\<rparr>) = 1"
  "parity (com1_boot\<lparr>baud := 115200, data_bits := 8, parity := 0, stop_bits := 1\<rparr>) = 0"
  "io_base (com1_boot\<lparr>baud := 115200, data_bits := 8, parity := 0, stop_bits := 1,
                         io_base := 0x2f8, irq := 3\<rparr>) = 0x2f8"
  by (simp_all add: com1_boot_def ns16550_com0_def)

lemma probe_answers:
  assumes "reads_bus uart"
  shows "reg_value uart (machine (responses [0, 0, 0x0f, 0x90])) 1 = 0"
    "reg_value uart (machine (responses [0, 0, 0x0f, 0x90])) 2 = 0x0f"
    "reg_value uart (machine (responses [0, 0, 0x0f, 0x90])) 3 = 0x90"
  using assms by (simp_all add: reg_value_def machine_def responses_def)

lemma probe_succeeds:
  assumes "reads_bus uart" "io_base uart < 0x10000"
  shows "fst (check_existence uart (machine (responses [0, 0, 0x0f, 0x90])))"
  unfolding check_existence_probe[OF assms] using probe_answers[OF assms(1)] by simp

text \<open>\<open>115200,8x1\<close> for COM1, with a port that answers the probe: registered, parity none.\<close>

theorem parity_char_defaults_to_none_witness:
  "CHR ''x'' \<notin> {CHR ''n'', CHR ''o'', CHR ''e'', CHR ''m'', CHR ''s''}
   \<and> \<not> isdigit CHR ''x''
   \<and> parse_parity_char CHR ''x'' = UART_PARITY_NONE
   \<and> fst (ns16550_parse_port_config no_parse_pci 0 com1_boot ''115200,8x1''
             (machine (responses [0, 0, 0x0f, 0x90]))) = Registered
   \<and> parity (fst (snd (ns16550_parse_port_config no_parse_pci 0 com1_boot ''115200,8x1''
             (machine (responses [0, 0, 0x0f, 0x90]))))) = 0"
proof -
  let ?w = "machine (responses [0, 0, 0x0f, 0x90])"
  let ?u = "com1_boot\<lparr>baud := 115200, data_bits := 8, parity := 0, stop_bits := 1\<rparr>"
  have c: "CHR ''x'' \<notin> {CHR ''n'', CHR ''o'', CHR ''e'', CHR ''m'', CHR ''s''}" by simp
  have nd: "\<not> isdigit CHR ''x''" by (simp add: isdigit_def)
  note t = parity_char_defaults_to_none[OF c, of no_parse_pci 0 com1_boot ?w]
  have eq: "ns16550_parse_port_config no_parse_pci 0 com1_boot ''115200,8x1'' ?w
      = ns16550_parse_port_config no_parse_pci 0 com1_boot ''115200,8n1'' ?w"
    using t nd by simp
  have pr: "fst (check_existence ?u ?w)"
    by (rule probe_succeeds) (simp_all add: com1_parsed_simps)
  have r: "ns16550_parse_port_config no_parse_pci 0 com1_boot ''115200,8n1'' ?w
      = (Registered, ?u, emit (Serial_register_uart 0) (snd (check_existence ?u ?w)))"
    unfolding ns16550_parse_port_config_def parse_fields_8n1
    using config_parsed_ok[of ?u ?w 0] pr
    by (simp add: com1_parsed_fields com1_parsed_simps)
  show ?thesis using c nd t eq r by (simp add: com1_parsed_fields)
qed

text \<open>\<open>115200,8n1,0x2f8,3\<close> with a port that answers the probe is registered.\<close>

theorem parse_port_config_registers_iff_witness:
  "fst (ns16550_parse_port_config no_parse_pci 0 com1_boot ''115200,8n1,0x2f8,3''
          (machine (responses [0, 0, 0x0f, 0x90]))) = Registered
   \<and> Serial_register_uart 0
       \<in> set (trace (snd (snd (ns16550_parse_port_config no_parse_pci 0 com1_boot
                 ''115200,8n1,0x2f8,3'' (machine (responses [0, 0, 0x0f, 0x90]))))))"
proof -
  let ?w = "machine (responses [0, 0, 0x0f, 0x90])"
  let ?u = "com1_boot\<lparr>baud := 115200, data_bits := 8, parity := 0, stop_bits := 1,
                        io_base := 0x2f8, irq := 3\<rparr>"
  note t = parse_port_config_registers_iff[of no_parse_pci 0 com1_boot
      "''115200,8n1,0x2f8,3''" ?w ?u ?w]
  have pr: "fst (check_existence ?u ?w)"
    by (rule probe_succeeds) (simp_all add: com1_parsed_simps com1_parsed_fields)
  have ex: "\<exists>uart' w'. parse_fields no_parse_pci 0 com1_boot ''115200,8n1,0x2f8,3'' ?w = (None, uart', w')
         \<and> (baud uart' = BAUD_AUTO \<or> (1200 \<le> baud uart' \<and> baud uart' \<le> 115200))
         \<and> 5 \<le> data_bits uart' \<and> data_bits uart' \<le> 8
         \<and> (stop_bits uart' = 1 \<or> stop_bits uart' = 2)
         \<and> io_base uart' \<noteq> 0
         \<and> fst (check_existence uart' w')"
    unfolding parse_fields_8n1_port_irq using pr by (simp add: com1_parsed_fields)
  have nr: "Serial_register_uart 0 \<notin> set (trace ?w)" by (simp add: machine_def)
  from t ex have a: "fst (ns16550_parse_port_config no_parse_pci 0 com1_boot ''115200,8n1,0x2f8,3'' ?w)
      = Registered"
    by blast
  from t nr a show ?thesis by blast
qed

text \<open>
  C3 as stated fails: for \<open>115200,8n1,amt\<close> on an empty PCI bus the parser returns when
  the scan fails. Nothing is registered, although the descriptor it leaves passes every
  validation (baud 115200, 8 data bits, 1 stop bit, io\_base 0x3f8) and the probe of it
  succeeds.
\<close>

theorem scan_failure_counterexample:
  "fst amt_on_empty_bus \<noteq> Registered
   \<and> Serial_register_uart 0 \<notin> set (trace (snd (snd amt_on_empty_bus)))
   \<and> baud (fst (snd amt_on_empty_bus)) = 115200
   \<and> data_bits (fst (snd amt_on_empty_bus)) = 8
   \<and> stop_bits (fst (snd amt_on_empty_bus)) = 1
   \<and> io_base (fst (snd amt_on_empty_bus)) = 0x3f8
   \<and> fst (check_existence (fst (snd amt_on_empty_bus)) (snd (snd amt_on_empty_bus)))"
proof -
  let ?w = "machine (responses [0, 0, 0x0f, 0x90])"
  let ?u = "com1_boot\<lparr>baud := 115200, data_bits := 8, parity := 0, stop_bits := 1\<rparr>"
  have e: "pci ?w = (\<lambda>_. absent_fn)" by (simp add: machine_def)
  have r: "amt_on_empty_bus = (Scan_failed, ?u, ?w)"
    by (simp add: amt_on_empty_bus_def ns16550_parse_port_config_def parse_fields_amt[OF e])
  have pr: "fst (check_existence ?u ?w)"
    by (rule probe_succeeds) (simp_all add: com1_parsed_simps)
  show ?thesis
    unfolding r using pr by (simp add: com1_parsed_fields com1_parsed_simps machine_def)
qed

subsection \<open>The PCI scan\<close>

lemma keep_bits: "(v AND m) OR (v AND NOT m) = (v :: u8)"
  by (simp add: bit_eq_iff bit_simps) blast

lemma restore_bits: "(v AND m) OR (((x AND m) OR (v AND NOT m)) AND NOT m) = (v :: u8)"
  by (simp add: bit_eq_iff bit_simps) blast

lemma bytes_of_cat16:
  "(ucast (word_cat (a :: u8) (b :: u8) :: u16) :: u8) = b"
  "(ucast (drop_bit 8 (word_cat (a :: u8) (b :: u8) :: u16)) :: u8) = a"
  by (simp_all add: bit_eq_iff bit_simps)

lemma halves_of_cat32:
  "(ucast (word_cat (a :: u16) (b :: u16) :: u32) :: u16) = b"
  "(ucast (drop_bit 16 (word_cat (a :: u16) (b :: u16) :: u32)) :: u16) = a"
  by (simp_all add: bit_eq_iff bit_simps)

lemma add_3_Suc [simp]: "reg + 3 = Suc (Suc (Suc reg))"
  by simp

lemma wmask_cfg_write [simp]:
  "wmask (cfg_write8 fn r v) = wmask fn"
  "wmask (cfg_write16 fn r v16) = wmask fn"
  "wmask (cfg_write32 fn r v32) = wmask fn"
  by (simp_all add: cfg_write8_def cfg_write16_def cfg_write32_def)

lemma cfg_write8_other: "r' \<noteq> r \<Longrightarrow> cfg (cfg_write8 fn r v) r' = cfg fn r'"
  by (simp add: cfg_write8_def)

lemma cfg_write8_at:
  "cfg (cfg_write8 fn r v) r = (v AND wmask fn r) OR (cfg fn r AND NOT (wmask fn r))"
  by (simp add: cfg_write8_def)

lemma cfg_write32_other:
  "r < reg \<or> reg + 4 \<le> r \<Longrightarrow> cfg (cfg_write32 fn reg v) r = cfg fn r"
  by (auto simp: cfg_write32_def cfg_write16_def cfg_write8_other)

lemma cfg_write32_read_back:
  "cfg_write32 fn reg
     (word_cat (word_cat (cfg fn (Suc (Suc (Suc reg)))) (cfg fn (Suc (Suc reg))) :: u16)
               (word_cat (cfg fn (Suc reg)) (cfg fn reg) :: u16)) = fn"
proof (rule pci_fn.equality)
  show "cfg (cfg_write32 fn reg
     (word_cat (word_cat (cfg fn (Suc (Suc (Suc reg)))) (cfg fn (Suc (Suc reg))) :: u16)
               (word_cat (cfg fn (Suc reg)) (cfg fn reg) :: u16))) = cfg fn"
    by (rule ext)
       (simp add: cfg_write32_def cfg_write16_def cfg_write8_def halves_of_cat32 bytes_of_cat16
        keep_bits add_3_Suc)
qed simp_all

lemma cfg_write32_restore:
  "cfg_write32 (cfg_write32 fn reg x) reg
     (word_cat (word_cat (cfg fn (Suc (Suc (Suc reg)))) (cfg fn (Suc (Suc reg))) :: u16)
               (word_cat (cfg fn (Suc reg)) (cfg fn reg) :: u16)) = fn"
proof (rule pci_fn.equality)
  show "cfg (cfg_write32 (cfg_write32 fn reg x) reg
     (word_cat (word_cat (cfg fn (Suc (Suc (Suc reg)))) (cfg fn (Suc (Suc reg))) :: u16)
               (word_cat (cfg fn (Suc reg)) (cfg fn reg) :: u16))) = cfg fn"
    by (rule ext)
       (simp add: cfg_write32_def cfg_write16_def cfg_write8_def halves_of_cat32 bytes_of_cat16
        restore_bits add_3_Suc)
qed simp_all


lemma pci_conf_read32_bytes:
  "pci_conf_read32 t p reg =
     word_cat (word_cat (cfg (t p) (Suc (Suc (Suc reg)))) (cfg (t p) (Suc (Suc reg))) :: u16)
              (word_cat (cfg (t p) (Suc reg)) (cfg (t p) reg) :: u16)"
  by (simp add: pci_conf_read32_def pci_conf_read16_def add.assoc)

lemma pci_write_read_back:
  "pci_conf_write32 t p reg (pci_conf_read32 t p reg) = t"
  by (simp add: pci_conf_write32_def pci_conf_read32_bytes cfg_write32_read_back)

lemma pci_write_restore:
  "pci_conf_write32 (pci_conf_write32 t p reg x) p reg (pci_conf_read32 t p reg) = t"
  by (simp add: pci_conf_write32_def pci_conf_read32_bytes cfg_write32_restore)

lemma pci_write_other_fn [simp]:
  "q \<noteq> p \<Longrightarrow> pci_conf_write32 t p reg v q = t q"
  by (simp add: pci_conf_write32_def)

lemma pci_read32_after_write:
  "reg' + 4 \<le> reg \<or> reg + 4 \<le> reg' \<Longrightarrow>
     pci_conf_read32 (pci_conf_write32 t p reg v) p reg' = pci_conf_read32 t p reg'"
  by (erule disjE) (simp_all add: pci_conf_read32_bytes pci_conf_write32_def cfg_write32_other)

lemma pci_read16_after_write:
  "reg' + 2 \<le> reg \<or> reg + 4 \<le> reg' \<Longrightarrow>
     pci_conf_read16 (pci_conf_write32 t p reg v) p reg' = pci_conf_read16 t p reg'"
  by (erule disjE) (simp_all add: pci_conf_read16_def pci_conf_write32_def cfg_write32_other)

lemma pci_read8_after_write:
  "reg' < reg \<or> reg + 4 \<le> reg' \<Longrightarrow>
     pci_conf_read8 (pci_conf_write32 t p reg v) p reg' = pci_conf_read8 t p reg'"
  by (simp add: pci_conf_read8_def pci_conf_write32_def cfg_write32_other)

text \<open>
  The two writes of the probe: the all-ones written to BAR 0 is undone when the target
  BAR is BAR 0, and stays when it is another one, which is rewritten with its own value.
\<close>

lemma probe_writes:
  "pci_conf_write32 (pci_conf_write32 t p PCI_BASE_ADDRESS_0 (NOT 0)) p
       (PCI_BASE_ADDRESS_0 + idx * 4) (pci_conf_read32 t p (PCI_BASE_ADDRESS_0 + idx * 4))
   = (if idx = 0 then t else pci_conf_write32 t p PCI_BASE_ADDRESS_0 (NOT 0))"
proof (cases "idx = 0")
  case True
  then show ?thesis by (simp add: pci_write_restore)
next
  case False
  have "pci_conf_read32 t p (PCI_BASE_ADDRESS_0 + idx * 4)
      = pci_conf_read32 (pci_conf_write32 t p PCI_BASE_ADDRESS_0 (NOT 0)) p
          (PCI_BASE_ADDRESS_0 + idx * 4)"
    using False by (simp add: pci_read32_after_write)
  then show ?thesis using False by (simp add: pci_write_read_back)
qed

lemma fn_accepted_cong: "t p = t' p \<Longrightarrow> fn_accepted idx t p = fn_accepted idx t' p"
  by (simp add: fn_accepted_def pci_conf_read16_def pci_conf_read32_bytes pci_conf_write32_def)

lemma multi_function_cong: "t (b, d, 0) = t' (b, d, 0) \<Longrightarrow> multi_function t b d = multi_function t' b d"
  by (simp add: multi_function_def pci_conf_read16_def)

lemma record_card_cong: "t p = t' p \<Longrightarrow> record_card uart idx t p = record_card uart idx t' p"
  by (simp add: record_card_def pci_conf_read8_def pci_conf_read32_bytes)

text \<open>One iteration of the innermost loop.\<close>

lemma pci_scan_fn_step:
  assumes "f < 8"
  shows "pci_scan_fn uart idx b d f t =
    (if fn_accepted idx t (b, d, f)
     then (True, record_card uart idx t (b, d, f),
           if idx = 0 then t else pci_conf_write32 t (b, d, f) PCI_BASE_ADDRESS_0 (NOT 0))
     else pci_scan_fn uart idx b d (if f \<noteq> 0 \<or> multi_function t b d then f + 1 else 8)
            (if serial_class (pci_conf_read16 t (b, d, f) PCI_CLASS_DEVICE)
                \<and> pci_conf_read32 t (b, d, f) (PCI_BASE_ADDRESS_0 + idx * 4)
                      AND PCI_BASE_ADDRESS_SPACE_IO \<noteq> 0
                \<and> idx \<noteq> 0
             then pci_conf_write32 t (b, d, f) PCI_BASE_ADDRESS_0 (NOT 0) else t))"
proof -
  have pin: "pci_conf_read8 (if idx = 0 then t
                else pci_conf_write32 t (b, d, f) PCI_BASE_ADDRESS_0 (NOT 0)) (b, d, f)
        PCI_INTERRUPT_PIN = pci_conf_read8 t (b, d, f) PCI_INTERRUPT_PIN"
    "pci_conf_read8 (if idx = 0 then t
                else pci_conf_write32 t (b, d, f) PCI_BASE_ADDRESS_0 (NOT 0)) (b, d, f)
        PCI_INTERRUPT_LINE = pci_conf_read8 t (b, d, f) PCI_INTERRUPT_LINE"
    by (simp_all add: pci_read8_after_write pci_regs)
  let ?cls = "pci_conf_read16 t (b, d, f) PCI_CLASS_DEVICE"
  let ?bar = "pci_conf_read32 t (b, d, f) (PCI_BASE_ADDRESS_0 + idx * 4)"
  let ?len = "pci_conf_read32 (pci_conf_write32 t (b, d, f) PCI_BASE_ADDRESS_0 (NOT 0)) (b, d, f)
                PCI_BASE_ADDRESS_0"
  have unfold: "pci_scan_fn uart idx b d f t =
     (if ?cls = 0x0700 \<or> ?cls = 0x0702 \<or> ?cls = 0x0780 then
        (if ?bar AND PCI_BASE_ADDRESS_SPACE_IO = 0
         then pci_scan_fn uart idx b d
                (if f \<noteq> 0 \<or> pci_conf_read16 t (b, d, f) PCI_HEADER_TYPE AND 0x80 \<noteq> 0
                 then f + 1 else 8) t
         else if ?len AND 0xffff \<noteq> 0xfff9
         then pci_scan_fn uart idx b d
                (if f \<noteq> 0 \<or> pci_conf_read16 t (b, d, f) PCI_HEADER_TYPE AND 0x80 \<noteq> 0
                 then f + 1 else 8)
                (if idx = 0 then t else pci_conf_write32 t (b, d, f) PCI_BASE_ADDRESS_0 (NOT 0))
         else (True, record_card uart idx t (b, d, f),
               if idx = 0 then t else pci_conf_write32 t (b, d, f) PCI_BASE_ADDRESS_0 (NOT 0)))
      else if ?cls = 0xffff
      then pci_scan_fn uart idx b d
             (if f = 0 then 8
              else if f \<noteq> 0 \<or> pci_conf_read16 t (b, d, f) PCI_HEADER_TYPE AND 0x80 \<noteq> 0
                   then f + 1 else 8) t
      else pci_scan_fn uart idx b d
             (if f \<noteq> 0 \<or> pci_conf_read16 t (b, d, f) PCI_HEADER_TYPE AND 0x80 \<noteq> 0
              then f + 1 else 8) t)"
    apply (subst pci_scan_fn.simps)
    apply (simp only: Let_def probe_writes)
    apply (simp only: assms if_True record_card_def pin)
    done
  have ser: "?cls = 0x0700 \<or> ?cls = 0x0702 \<or> ?cls = 0x0780 \<Longrightarrow> ?cls \<noteq> 0xffff"
    by auto
  have nf: "(if f \<noteq> 0 \<or> multi_function t b d then f + 1 else 8) =
      (if ?cls = 0xffff
       then (if f = 0 then 8
             else if f \<noteq> 0 \<or> pci_conf_read16 t (b, d, f) PCI_HEADER_TYPE AND 0x80 \<noteq> 0
                  then f + 1 else 8)
       else (if f \<noteq> 0 \<or> pci_conf_read16 t (b, d, f) PCI_HEADER_TYPE AND 0x80 \<noteq> 0
             then f + 1 else 8))"
    by (cases "f = 0") (simp_all add: multi_function_def)
  show ?thesis
  proof (cases "?cls = 0x0700 \<or> ?cls = 0x0702 \<or> ?cls = 0x0780")
    case A: True
    then have sc: "serial_class ?cls" by (simp add: serial_class_def)
    have c: "?cls \<noteq> 0xffff" using ser[OF A] .
    show ?thesis
    proof (cases "?bar AND PCI_BASE_ADDRESS_SPACE_IO = 0")
      case True
      have na: "\<not> fn_accepted idx t (b, d, f)" using True by (simp add: fn_accepted_def)
      show ?thesis
        unfolding unfold nf by (simp only: A True na c sc if_True if_False simp_thms)
    next
      case io: False
      show ?thesis
      proof (cases "?len AND 0xffff \<noteq> 0xfff9")
        case True
        have na: "\<not> fn_accepted idx t (b, d, f)" using True by (simp add: fn_accepted_def)
        have sw: "(if serial_class ?cls \<and> ?bar AND PCI_BASE_ADDRESS_SPACE_IO \<noteq> 0 \<and> idx \<noteq> 0
             then pci_conf_write32 t (b, d, f) PCI_BASE_ADDRESS_0 (NOT 0) else t)
            = (if idx = 0 then t else pci_conf_write32 t (b, d, f) PCI_BASE_ADDRESS_0 (NOT 0))"
          using sc io by (cases "idx = 0") simp_all
        show ?thesis
          unfolding unfold nf sw
          by (simp only: A True io na c if_True if_False simp_thms)
      next
        case False
        have a: "fn_accepted idx t (b, d, f)" using False io sc by (simp add: fn_accepted_def)
        show ?thesis
          unfolding unfold nf by (simp only: A False io a if_True if_False simp_thms)
      qed
    qed
  next
    case B: False
    then have sc: "\<not> serial_class ?cls" by (simp add: serial_class_def)
    have na: "\<not> fn_accepted idx t (b, d, f)" using sc by (simp add: fn_accepted_def)
    have sw: "(if serial_class ?cls \<and> ?bar AND PCI_BASE_ADDRESS_SPACE_IO \<noteq> 0 \<and> idx \<noteq> 0
             then pci_conf_write32 t (b, d, f) PCI_BASE_ADDRESS_0 (NOT 0) else t) = t"
      using sc by simp
    show ?thesis
      unfolding unfold nf sw
      by (simp only: B na if_False) (rule if_distrib[symmetric])
  qed
qed


lemma pci_scan_fn_done: "\<not> f < 8 \<Longrightarrow> pci_scan_fn uart idx b d f t = (False, uart, t)"
  by (subst pci_scan_fn.simps) simp

lemma find_append_first:
  "find P (xs @ ys) = (case find P xs of None \<Rightarrow> find P ys | Some x \<Rightarrow> Some x)"
  by (induction xs) simp_all

text \<open>
  The innermost loop from function f of a device, on a table that still has the
  original registers of the functions from f on: it stops at the first function that is
  walked and accepted in the original table, and touches no other device.
\<close>

lemma pci_scan_fn_find:
  assumes "\<forall>f'\<ge>f. t (b, d, f') = t0 (b, d, f')" and "0 < f \<longrightarrow> multi_function t0 b d"
  shows "\<exists>t'. pci_scan_fn uart idx b d f t =
          (case find (\<lambda>p. fn_walked t0 p \<and> fn_accepted idx t0 p) (map (\<lambda>f'. (b, d, f')) [f..<8]) of
             Some p \<Rightarrow> (True, record_card uart idx t0 p, t')
           | None \<Rightarrow> (False, uart, t'))
        \<and> (\<forall>b' d' f'. (b', d') \<noteq> (b, d) \<longrightarrow> t' (b', d', f') = t (b', d', f'))"
  using assms
proof (induction "8 - f" arbitrary: f t)
  case 0
  then have "\<not> f < 8" by simp
  then show ?case by (simp add: pci_scan_fn_done)
next
  case (Suc n)
  then have f8: "f < 8" by simp
  let ?p = "(b, d, f)"
  let ?P = "\<lambda>p. fn_walked t0 p \<and> fn_accepted idx t0 p"
  let ?sized = "pci_conf_write32 t ?p PCI_BASE_ADDRESS_0 (NOT 0)"
  have tp: "t ?p = t0 ?p" using Suc.prems(1) by simp
  have acc: "fn_accepted idx t ?p = fn_accepted idx t0 ?p" using fn_accepted_cong[of t ?p t0 idx] tp by simp
  have walked: "fn_walked t0 ?p" using Suc.prems(2) by (auto simp: fn_walked_def)
  have lst: "[f..<8] = f # [Suc f..<8]" using f8 by (simp add: upt_conv_Cons)
  show ?case
  proof (cases "fn_accepted idx t ?p")
    case True
    have fnd: "find ?P (map (\<lambda>f'. (b, d, f')) [f..<8]) = Some ?p"
      using True acc walked by (simp add: lst)
    show ?thesis
      unfolding pci_scan_fn_step[OF f8] fnd
      using True record_card_cong[of t ?p t0 uart idx] tp by (auto simp: pci_conf_write32_def)
  next
    case False
    let ?t' = "if serial_class (pci_conf_read16 t ?p PCI_CLASS_DEVICE)
                \<and> pci_conf_read32 t ?p (PCI_BASE_ADDRESS_0 + idx * 4)
                      AND PCI_BASE_ADDRESS_SPACE_IO \<noteq> 0
                \<and> idx \<noteq> 0
             then ?sized else t"
    have fr: "\<And>q. q \<noteq> ?p \<Longrightarrow> ?t' q = t q" by (simp add: pci_conf_write32_def)
    have fr2: "\<forall>b' d' f'. (b', d') \<noteq> (b, d) \<longrightarrow> ?t' (b', d', f') = t (b', d', f')"
      by (simp add: pci_conf_write32_def)
    have fnd: "find ?P (map (\<lambda>f'. (b, d, f')) [f..<8]) = find ?P (map (\<lambda>f'. (b, d, f')) [Suc f..<8])"
      using False acc by (simp add: lst)
    have stp: "pci_scan_fn uart idx b d f t
        = pci_scan_fn uart idx b d (if f \<noteq> 0 \<or> multi_function t b d then f + 1 else 8) ?t'"
      unfolding pci_scan_fn_step[OF f8] using False by simp
    show ?thesis
    proof (cases "f \<noteq> 0 \<or> multi_function t b d")
      case nxt: True
      have m0: "multi_function t0 b d"
      proof (cases "f = 0")
        case True
        then have "t (b, d, 0) = t0 (b, d, 0)" using tp by simp
        from multi_function_cong[of t b d t0] this nxt True show ?thesis by simp
      next
        case False
        then show ?thesis using Suc.prems(2) by simp
      qed
      have n: "n = 8 - Suc f" using Suc.hyps(2) by simp
      have i1: "\<forall>f'\<ge>Suc f. ?t' (b, d, f') = t0 (b, d, f')"
        using Suc.prems(1) fr by simp
      from Suc.hyps(1)[OF n i1] m0
      obtain t'' where r: "pci_scan_fn uart idx b d (Suc f) ?t' =
          (case find ?P (map (\<lambda>f'. (b, d, f')) [Suc f..<8]) of
             Some p \<Rightarrow> (True, record_card uart idx t0 p, t'')
           | None \<Rightarrow> (False, uart, t''))"
        and fr': "\<forall>b' d' f'. (b', d') \<noteq> (b, d) \<longrightarrow> t'' (b', d', f') = ?t' (b', d', f')"
        by auto
      have fr'': "\<forall>b' d' f'. (b', d') \<noteq> (b, d) \<longrightarrow> t'' (b', d', f') = t (b', d', f')"
        using fr' fr by auto
      show ?thesis
        unfolding stp fnd using nxt r fr'' by (intro exI[of _ t'']) simp
    next
      case stop: False
      then have f0: "f = 0" and nm: "\<not> multi_function t b d" by simp_all
      have "t (b, d, 0) = t0 (b, d, 0)" using tp f0 by simp
      from multi_function_cong[of t b d t0] this nm have nm0: "\<not> multi_function t0 b d" by simp
      have none: "find ?P (map (\<lambda>f'. (b, d, f')) [Suc f..<8]) = None"
        unfolding find_None_iff using nm0 f0 by (auto simp: fn_walked_def)
      have dn: "pci_scan_fn uart idx b d (if f \<noteq> 0 \<or> multi_function t b d then f + 1 else 8) ?t'
          = (False, uart, ?t')"
        using stop by (simp only: if_False pci_scan_fn_done)
      show ?thesis
        unfolding stp fnd none dn using fr2
        by (intro exI[of _ ?t']) (simp only: option.case simp_thms)
    qed
  qed
qed


lemma pci_scan_dev_find:
  assumes "\<forall>d'\<ge>d. \<forall>f. t (b, d', f) = t0 (b, d', f)"
  shows "\<exists>t'. pci_scan_dev uart idx b d t =
          (case find (\<lambda>p. fn_walked t0 p \<and> fn_accepted idx t0 p)
                  (concat (map (\<lambda>d'. map (\<lambda>f. (b, d', f)) [0..<8]) [d..<0x20])) of
             Some p \<Rightarrow> (True, record_card uart idx t0 p, t')
           | None \<Rightarrow> (False, uart, t'))
        \<and> (\<forall>b' d' f'. b' \<noteq> b \<longrightarrow> t' (b', d', f') = t (b', d', f'))"
  using assms
proof (induction "32 - d" arbitrary: d t)
  case 0
  then have "\<not> d < 0x20" by simp
  then show ?case by (subst pci_scan_dev.simps) simp
next
  case (Suc n)
  then have d32: "d < 0x20" by simp
  let ?P = "\<lambda>p. fn_walked t0 p \<and> fn_accepted idx t0 p"
  let ?dev = "\<lambda>d'. map (\<lambda>f. (b, d', f)) [0..<8]"
  have lst: "[d..<0x20] = d # [Suc d..<0x20]" using d32 by (simp add: upt_conv_Cons)
  have i0: "\<forall>f'\<ge>0. t (b, d, f') = t0 (b, d, f')" using Suc.prems by simp
  from pci_scan_fn_find[of 0 t b d t0 uart idx] i0
  obtain t1 where r1: "pci_scan_fn uart idx b d 0 t =
          (case find ?P (?dev d) of
             Some p \<Rightarrow> (True, record_card uart idx t0 p, t1)
           | None \<Rightarrow> (False, uart, t1))"
    and fr1: "\<forall>b' d' f'. (b', d') \<noteq> (b, d) \<longrightarrow> t1 (b', d', f') = t (b', d', f')"
    by auto
  have split: "find ?P (concat (map ?dev [d..<0x20]))
      = (case find ?P (?dev d) of None \<Rightarrow> find ?P (concat (map ?dev [Suc d..<0x20]))
         | Some x \<Rightarrow> Some x)"
    unfolding lst by (simp only: list.map concat.simps find_append_first)
  show ?case
  proof (cases "find ?P (?dev d)")
    case (Some p)
    have "pci_scan_dev uart idx b d t = (True, record_card uart idx t0 p, t1)"
      using d32 by (subst pci_scan_dev.simps) (simp add: r1 Some)
    then show ?thesis
      unfolding split Some using fr1 by (intro exI[of _ t1]) auto
  next
    case None
    have stp: "pci_scan_dev uart idx b d t = pci_scan_dev uart idx b (Suc d) t1"
      using d32 by (subst pci_scan_dev.simps) (simp add: r1 None)
    have n: "n = 32 - Suc d" using Suc.hyps(2) by simp
    have i1: "\<forall>d'\<ge>Suc d. \<forall>f. t1 (b, d', f) = t0 (b, d', f)"
      using Suc.prems fr1 by auto
    from Suc.hyps(1)[OF n i1]
    obtain t2 where r2: "pci_scan_dev uart idx b (Suc d) t1 =
          (case find ?P (concat (map ?dev [Suc d..<0x20])) of
             Some p \<Rightarrow> (True, record_card uart idx t0 p, t2)
           | None \<Rightarrow> (False, uart, t2))"
      and fr2: "\<forall>b' d' f'. b' \<noteq> b \<longrightarrow> t2 (b', d', f') = t1 (b', d', f')"
      by auto
    show ?thesis
      unfolding stp split None using r2 fr1 fr2 by (intro exI[of _ t2]) auto
  qed
qed

lemma pci_scan_bus_find:
  assumes "\<forall>b'\<ge>b. \<forall>d f. t (b', d, f) = t0 (b', d, f)"
  shows "\<exists>t'. pci_scan_bus uart idx b t =
          (case find (\<lambda>p. fn_walked t0 p \<and> fn_accepted idx t0 p)
                  (concat (map (\<lambda>b'. concat (map (\<lambda>d'. map (\<lambda>f. (b', d', f)) [0..<8]) [0..<0x20]))
                             [b..<0x100])) of
             Some p \<Rightarrow> (True, record_card uart idx t0 p, t')
           | None \<Rightarrow> (False, uart, t'))"
  using assms
proof (induction "256 - b" arbitrary: b t)
  case 0
  then have "\<not> b < 0x100" by simp
  then show ?case by (subst pci_scan_bus.simps) simp
next
  case (Suc n)
  then have b256: "b < 0x100" by simp
  let ?P = "\<lambda>p. fn_walked t0 p \<and> fn_accepted idx t0 p"
  let ?bus = "\<lambda>b'. concat (map (\<lambda>d'. map (\<lambda>f. (b', d', f)) [0..<8]) [0..<0x20])"
  have lst: "[b..<0x100] = b # [Suc b..<0x100]" using b256 by (simp add: upt_conv_Cons)
  have i0: "\<forall>d'\<ge>0. \<forall>f. t (b, d', f) = t0 (b, d', f)" using Suc.prems by simp
  from pci_scan_dev_find[of 0 t b t0 uart idx] i0
  obtain t1 where r1: "pci_scan_dev uart idx b 0 t =
          (case find ?P (?bus b) of
             Some p \<Rightarrow> (True, record_card uart idx t0 p, t1)
           | None \<Rightarrow> (False, uart, t1))"
    and fr1: "\<forall>b' d' f'. b' \<noteq> b \<longrightarrow> t1 (b', d', f') = t (b', d', f')"
    by auto
  have split: "find ?P (concat (map ?bus [b..<0x100]))
      = (case find ?P (?bus b) of None \<Rightarrow> find ?P (concat (map ?bus [Suc b..<0x100]))
         | Some x \<Rightarrow> Some x)"
    unfolding lst by (simp only: list.map concat.simps find_append_first)
  show ?case
  proof (cases "find ?P (?bus b)")
    case (Some p)
    have "pci_scan_bus uart idx b t = (True, record_card uart idx t0 p, t1)"
      using b256 by (subst pci_scan_bus.simps) (simp add: r1 Some)
    then show ?thesis
      unfolding split Some by (intro exI[of _ t1]) auto
  next
    case None
    have stp: "pci_scan_bus uart idx b t = pci_scan_bus uart idx (Suc b) t1"
      using b256 by (subst pci_scan_bus.simps) (simp add: r1 None)
    have n: "n = 256 - Suc b" using Suc.hyps(2) by simp
    have i1: "\<forall>b'\<ge>Suc b. \<forall>d f. t1 (b', d, f) = t0 (b', d, f)"
      using Suc.prems fr1 by auto
    from Suc.hyps(1)[OF n i1]
    obtain t2 where r2: "pci_scan_bus uart idx (Suc b) t1 =
          (case find ?P (concat (map ?bus [Suc b..<0x100])) of
             Some p \<Rightarrow> (True, record_card uart idx t0 p, t2)
           | None \<Rightarrow> (False, uart, t2))"
      by auto
    show ?thesis
      unfolding stp split None using r2 by (intro exI[of _ t2]) auto
  qed
qed

text \<open>
  C7: for every configuration space, skip-first-bus flag and target BAR index, the scan
  selects exactly the first function, in ascending (bus, device, function) order from bus 1
  when the flag is set and from bus 0 otherwise, with functions 1 to 7 of a device walked
  only where the header of its function 0 indicates multi-function (and function 0 is
  present), whose class code is 0x0700, 0x0702 or 0x0780, whose target BAR is I/O space and
  whose sizing read, that of the primary BAR, encodes an 8-byte region (low half 0xfff9).
  It returns 0 with the descriptor holding that location, the value and the index of the
  target BAR, \<open>io_base\<close> the BAR value without its I/O-space bit, and \<open>irq\<close> the interrupt
  line when an interrupt pin is declared and 0 otherwise, all read from the configuration
  space as it was before the scan. Where no function matches it returns 0 with the legacy
  defaults when the flag is set, and -1 with the descriptor untouched otherwise.
\<close>

theorem pci_uart_config_selects_first_match:
  "(fst (pci_uart_config uart skip_amt idx w), fst (snd (pci_uart_config uart skip_amt idx w))) =
     (case first_match skip_amt idx (pci w) of
        Some p \<Rightarrow> (0, record_card uart idx (pci w) p)
      | None \<Rightarrow>
          if skip_amt
          then (0, uart\<lparr>io_base := 0x3f8, irq := 0, clock_hz := UART_CLOCK_HZ\<rparr>)
          else (- 1, uart))"
proof -
  let ?b = "if skip_amt then 1 else 0 :: nat"
  from pci_scan_bus_find[of ?b "pci w" "pci w" uart idx]
  obtain t' where r: "pci_scan_bus uart idx ?b (pci w) =
      (case first_match skip_amt idx (pci w) of
         Some p \<Rightarrow> (True, record_card uart idx (pci w) p, t')
       | None \<Rightarrow> (False, uart, t'))"
    unfolding first_match_def bus_order_def by auto
  show ?thesis
    unfolding pci_uart_config_def r
    by (cases "first_match skip_amt idx (pci w)") simp_all
qed


subsection \<open>What the scan leaves in configuration space\<close>

text \<open>With BAR 0 as the target, the scan leaves configuration space as it found it.\<close>

lemma pci_scan_fn_primary: "snd (snd (pci_scan_fn uart 0 b d f t)) = t"
proof (induction "8 - f" arbitrary: f)
  case 0
  then show ?case by (simp add: pci_scan_fn_done)
next
  case (Suc n)
  then have f8: "f < 8" by simp
  show ?case
  proof (cases "f \<noteq> 0 \<or> multi_function t b d")
    case True
    have "snd (snd (pci_scan_fn uart 0 b d (Suc f) t)) = t"
      using Suc.hyps by simp
    then show ?thesis unfolding pci_scan_fn_step[OF f8] using True by simp
  next
    case False
    then show ?thesis unfolding pci_scan_fn_step[OF f8] by (simp add: pci_scan_fn_done)
  qed
qed

lemma pci_scan_dev_primary: "snd (snd (pci_scan_dev uart 0 b d t)) = t"
proof (induction "32 - d" arbitrary: d uart)
  case 0
  then show ?case by (subst pci_scan_dev.simps) simp
next
  case (Suc n)
  then have d32: "d < 0x20" by simp
  obtain r u t' where fn: "pci_scan_fn uart 0 b d 0 t = (r, u, t')"
    by (cases "pci_scan_fn uart 0 b d 0 t") auto
  then have t': "t' = t" using pci_scan_fn_primary[of uart b d 0 t] by simp
  have "snd (snd (pci_scan_dev u 0 b (Suc d) t)) = t" using Suc.hyps by simp
  then show ?case
    using d32 by (subst pci_scan_dev.simps) (simp add: fn t' split: bool.splits)
qed

lemma pci_scan_bus_primary: "snd (snd (pci_scan_bus uart 0 b t)) = t"
proof (induction "256 - b" arbitrary: b uart)
  case 0
  then show ?case by (subst pci_scan_bus.simps) simp
next
  case (Suc n)
  then have b256: "b < 0x100" by simp
  obtain r u t' where dv: "pci_scan_dev uart 0 b 0 t = (r, u, t')"
    by (cases "pci_scan_dev uart 0 b 0 t") auto
  then have t': "t' = t" using pci_scan_dev_primary[of uart b 0 t] by simp
  have "snd (snd (pci_scan_bus u 0 (Suc b) t)) = t" using Suc.hyps by simp
  then show ?case
    using b256 by (subst pci_scan_bus.simps) (simp add: dv t' split: bool.splits)
qed

lemma pci_uart_config_primary_restores:
  "pci (snd (snd (pci_uart_config uart skip_amt 0 w))) = pci w"
  using pci_scan_bus_primary[of uart "if skip_amt then 1 else 0" "pci w"]
  by (cases "pci_scan_bus uart 0 (if skip_amt then 1 else 0) (pci w)")
     (auto simp: pci_uart_config_def split: bool.splits)

text \<open>Devices that are not there.\<close>

lemma absent_fn_class: "t p = absent_fn \<Longrightarrow> pci_conf_read16 t p PCI_CLASS_DEVICE = 0xffff"
  by (simp add: pci_conf_read16_def absent_fn_def word_cat_eq)

lemma pci_scan_fn_no_device:
  assumes "t (b, d, 0) = absent_fn"
  shows "pci_scan_fn uart idx b d 0 t = (False, uart, t)"
proof -
  have c: "pci_conf_read16 t (b, d, 0) PCI_CLASS_DEVICE = 0xffff"
    using assms by (rule absent_fn_class[of t "(b, d, 0)"])
  have "\<not> fn_accepted idx t (b, d, 0)" "\<not> multi_function t b d"
    "\<not> serial_class (pci_conf_read16 t (b, d, 0) PCI_CLASS_DEVICE)"
    by (simp_all add: fn_accepted_def multi_function_def serial_class_def c)
  then show ?thesis
    by (subst pci_scan_fn_step) (simp_all add: pci_scan_fn_done)
qed

lemma pci_scan_dev_no_device:
  "\<forall>d'\<ge>d. t (b, d', 0) = absent_fn \<Longrightarrow> pci_scan_dev uart idx b d t = (False, uart, t)"
proof (induction "32 - d" arbitrary: d)
  case 0
  then show ?case by (subst pci_scan_dev.simps) simp
next
  case (Suc n)
  then have "pci_scan_dev uart idx b (d + 1) t = (False, uart, t)" by simp
  moreover have "pci_scan_fn uart idx b d 0 t = (False, uart, t)"
    using Suc.prems by (intro pci_scan_fn_no_device) simp
  ultimately show ?case by (subst pci_scan_dev.simps) simp
qed

lemma pci_scan_bus_no_device:
  "\<forall>b'\<ge>b. \<forall>d. t (b', d, 0) = absent_fn \<Longrightarrow> pci_scan_bus uart idx b t = (False, uart, t)"
proof (induction "256 - b" arbitrary: b)
  case 0
  then show ?case by (subst pci_scan_bus.simps) simp
next
  case (Suc n)
  then have "pci_scan_bus uart idx (b + 1) t = (False, uart, t)" by simp
  moreover have "pci_scan_dev uart idx b 0 t = (False, uart, t)"
    using Suc.prems by (intro pci_scan_dev_no_device) simp
  ultimately show ?case by (subst pci_scan_bus.simps) simp
qed


subsection \<open>The cards of the closed statements\<close>

lemma all_ones: "(NOT 0 :: u32) = 0xffffffff"
  by simp

lemma sized_bar0_mem:
  "pci_conf_read32 (pci_conf_write32 ((\<lambda>_. absent_fn)((1, 0, 0) := card_mem_io)) (1, 0, 0)
       PCI_BASE_ADDRESS_0 (NOT 0)) (1, 0, 0) PCI_BASE_ADDRESS_0 = 0xfffff000"
  unfolding all_ones
  by (simp add: pci_conf_read32_bytes pci_conf_write32_def cfg_write32_def cfg_write16_def
      cfg_write8_def card_mem_io_def pci_regs word_cat_eq)

lemma orig_bar0_mem:
  "pci_conf_read32 ((\<lambda>_. absent_fn)((1, 0, 0) := card_mem_io)) (1, 0, 0) PCI_BASE_ADDRESS_0
     = 0xfebf0000"
  by (simp add: pci_conf_read32_bytes card_mem_io_def pci_regs word_cat_eq)

lemma bar1_mem:
  "pci_conf_read32 ((\<lambda>_. absent_fn)((1, 0, 0) := card_mem_io)) (1, 0, 0)
     (PCI_BASE_ADDRESS_0 + 1 * 4) = 0xe001"
  by (simp add: pci_conf_read32_bytes card_mem_io_def pci_regs word_cat_eq)

lemma class_mem:
  "pci_conf_read16 ((\<lambda>_. absent_fn)((1, 0, 0) := card_mem_io)) (1, 0, 0) PCI_CLASS_DEVICE
     = 0x0700"
  by (simp add: pci_conf_read16_def card_mem_io_def pci_regs word_cat_eq)

lemma header_mem:
  "pci_conf_read16 ((\<lambda>_. absent_fn)((1, 0, 0) := card_mem_io)) (1, 0, 0) PCI_HEADER_TYPE
     = 0"
  by (simp add: pci_conf_read16_def card_mem_io_def pci_regs word_cat_eq)


lemma scan_card_mem_io:
  "pci_scan_bus uart 1 1 ((\<lambda>_. absent_fn)((1, 0, 0) := card_mem_io)) =
     (False, uart,
      pci_conf_write32 ((\<lambda>_. absent_fn)((1, 0, 0) := card_mem_io)) (1, 0, 0)
        PCI_BASE_ADDRESS_0 (NOT 0))"
proof -
  let ?t = "(\<lambda>_. absent_fn)((1, 0, 0) := card_mem_io) :: pci_space"
  let ?s = "pci_conf_write32 ?t (1, 0, 0) PCI_BASE_ADDRESS_0 (NOT 0)"
  have rej: "\<not> fn_accepted 1 ?t (1, 0, 0)"
    unfolding fn_accepted_def sized_bar0_mem by simp
  have single: "\<not> multi_function ?t 1 0"
    unfolding multi_function_def header_mem by simp
  have io: "serial_class (pci_conf_read16 ?t (1, 0, 0) PCI_CLASS_DEVICE)
        \<and> pci_conf_read32 ?t (1, 0, 0) (PCI_BASE_ADDRESS_0 + 1 * 4)
              AND PCI_BASE_ADDRESS_SPACE_IO \<noteq> 0"
    unfolding class_mem bar1_mem by (simp add: serial_class_def pci_regs)
  have fn: "pci_scan_fn uart 1 1 0 0 ?t = (False, uart, ?s)"
    using rej single io by (subst pci_scan_fn_step) (simp_all add: pci_scan_fn_done)
  have dev': "pci_scan_dev uart 1 1 (0 + 1) ?s = (False, uart, ?s)"
    by (rule pci_scan_dev_no_device) simp
  have dev: "pci_scan_dev uart 1 1 0 ?t = (False, uart, ?s)"
    by (subst pci_scan_dev.simps) (use fn dev' in simp)
  have bus': "pci_scan_bus uart 1 (1 + 1) ?s = (False, uart, ?s)"
    by (rule pci_scan_bus_no_device) simp
  show ?thesis
    by (subst pci_scan_bus.simps) (use dev bus' in simp)
qed

text \<open>
  C2 does not hold of the code for a target BAR other than BAR 0. The scan with target
  BAR 1 over the machine whose only function, (1, 0, 0), is a serial card with a 4 KiB
  memory BAR 0 at 0xfebf0000 and an 8-byte I/O BAR 1 rejects that function, its sizing
  read 0xfffff000 not encoding 8 bytes, and falls back to the legacy defaults; BAR 0 of
  the rejected function read 0xfebf0000 before the scan and reads 0xfffff000 after it.
\<close>

theorem sizing_value_stays_in_bar0:
  "pci_uart_config com1_boot True 1 (machine_with card_mem_io) =
     (0, com1_boot\<lparr>io_base := 0x3f8, irq := 0, clock_hz := UART_CLOCK_HZ\<rparr>,
      (machine_with card_mem_io)
        \<lparr>pci := pci_conf_write32 (pci (machine_with card_mem_io)) (1, 0, 0)
                  PCI_BASE_ADDRESS_0 (NOT 0)\<rparr>)
   \<and> pci_conf_read32 (pci (machine_with card_mem_io)) (1, 0, 0) PCI_BASE_ADDRESS_0 = 0xfebf0000
   \<and> pci_conf_read32
         (pci (snd (snd (pci_uart_config com1_boot True 1 (machine_with card_mem_io)))))
         (1, 0, 0) PCI_BASE_ADDRESS_0 = 0xfffff000"
proof -
  have t: "pci (machine_with card_mem_io) = (\<lambda>_. absent_fn)((1, 0, 0) := card_mem_io)"
    by (simp add: machine_with_def)
  have run: "pci_uart_config com1_boot True 1 (machine_with card_mem_io) =
     (0, com1_boot\<lparr>io_base := 0x3f8, irq := 0, clock_hz := UART_CLOCK_HZ\<rparr>,
      (machine_with card_mem_io)
        \<lparr>pci := pci_conf_write32 (pci (machine_with card_mem_io)) (1, 0, 0)
                  PCI_BASE_ADDRESS_0 (NOT 0)\<rparr>)"
    unfolding pci_uart_config_def t using scan_card_mem_io[of com1_boot] by simp
  show ?thesis
    unfolding run unfolding t using sized_bar0_mem orig_bar0_mem by simp
qed


lemma bus_order_head: "\<exists>xs. bus_order 1 = (1, 0, 0) # xs"
proof -
  have a: "[1..<0x100] = 1 # [Suc 1..<0x100]" by (rule upt_conv_Cons) simp
  have b: "[0..<0x20] = 0 # [Suc 0..<0x20]" by (rule upt_conv_Cons) simp
  have c: "[0..<8] = 0 # [Suc 0..<8]" by (rule upt_conv_Cons) simp
  show ?thesis
    unfolding bus_order_def a b c
    by (simp only: list.map concat.simps append_Cons) blast
qed

lemma card_io_regs:
  "pci_conf_read16 ((\<lambda>_. absent_fn)((1, 0, 0) := card_io)) (1, 0, 0) PCI_CLASS_DEVICE = 0x0700"
  "pci_conf_read32 ((\<lambda>_. absent_fn)((1, 0, 0) := card_io)) (1, 0, 0) (PCI_BASE_ADDRESS_0 + 0 * 4)
     = 0xe001"
  "pci_conf_read32 (pci_conf_write32 ((\<lambda>_. absent_fn)((1, 0, 0) := card_io)) (1, 0, 0)
       PCI_BASE_ADDRESS_0 (NOT 0)) (1, 0, 0) PCI_BASE_ADDRESS_0 = 0xfff9"
  "pci_conf_read8 ((\<lambda>_. absent_fn)((1, 0, 0) := card_io)) (1, 0, 0) PCI_INTERRUPT_PIN = 1"
  "pci_conf_read8 ((\<lambda>_. absent_fn)((1, 0, 0) := card_io)) (1, 0, 0) PCI_INTERRUPT_LINE = 11"
  unfolding all_ones
  by (simp_all add: pci_conf_read8_def pci_conf_read16_def pci_conf_read32_bytes
      pci_conf_write32_def cfg_write32_def cfg_write16_def cfg_write8_def card_io_def pci_regs
      word_cat_eq)

lemma first_match_card_io: "first_match True 0 (pci (machine_with card_io)) = Some (1, 0, 0)"
proof -
  have t: "pci (machine_with card_io) = (\<lambda>_. absent_fn)((1, 0, 0) := card_io)"
    by (simp add: machine_with_def)
  obtain xs where xs: "bus_order 1 = (1, 0, 0) # xs" using bus_order_head by blast
  have "fn_accepted 0 ((\<lambda>_. absent_fn)((1, 0, 0) := card_io)) (1, 0, 0)"
    unfolding fn_accepted_def card_io_regs by (simp add: serial_class_def pci_regs)
  then show ?thesis
    unfolding first_match_def t by (simp only: if_True xs) (simp add: fn_walked_def)
qed

text \<open>The scan with target BAR 0 over the machine whose card has the I/O region in BAR 0.\<close>

theorem pci_uart_config_selects_first_match_witness:
  "fst (pci_uart_config com1_boot True 0 (machine_with card_io)) = 0
   \<and> ps_bdf (fst (snd (pci_uart_config com1_boot True 0 (machine_with card_io)))) = (1, 0, 0)
   \<and> bar (fst (snd (pci_uart_config com1_boot True 0 (machine_with card_io)))) = 0xe001
   \<and> bar_idx (fst (snd (pci_uart_config com1_boot True 0 (machine_with card_io)))) = 0
   \<and> io_base (fst (snd (pci_uart_config com1_boot True 0 (machine_with card_io)))) = 0xe000
   \<and> irq (fst (snd (pci_uart_config com1_boot True 0 (machine_with card_io)))) = 11"
proof -
  have t: "pci (machine_with card_io) = (\<lambda>_. absent_fn)((1, 0, 0) := card_io)"
    by (simp add: machine_with_def)
  have "record_card com1_boot 0 (pci (machine_with card_io)) (1, 0, 0) =
          com1_boot\<lparr>ps_bdf := (1, 0, 0), bar := 0xe001, bar_idx := 0, io_base := 0xe000,
                     irq := 11\<rparr>"
    unfolding record_card_def t card_io_regs by (simp add: pci_regs)
  then show ?thesis
    using pci_uart_config_selects_first_match[of com1_boot True 0 "machine_with card_io"]
    by (simp add: first_match_card_io)
qed

end
